theory Spec2Isabelle
  imports Main
begin

section \<open>Data model (internal/store/store.go)\<close>

text \<open>
  Instants of \<^verbatim>\<open>time.Time\<close> are natural numbers, Go \<^verbatim>\<open>error\<close> values are
  identified with their message, and \<^verbatim>\<open>WorkspaceStatus\<close> is a string type as in the
  source.
\<close>

type_synonym Time = nat
type_synonym error = string
type_synonym WorkspaceStatus = string

definition StatusPending :: WorkspaceStatus where "StatusPending = ''pending''"
definition StatusRunning :: WorkspaceStatus where "StatusRunning = ''running''"
definition StatusStopped :: WorkspaceStatus where "StatusStopped = ''stopped''"
definition StatusError :: WorkspaceStatus where "StatusError = ''error''"

record Workspace =
  ID :: string
  Name :: string
  Status :: WorkspaceStatus
  DockerImage :: string
  DockerImageTag :: string
  HelmReleaseName :: string
  Namespace :: string
  IngressHost :: string
  CPURequest :: string
  MemoryRequest :: string
  CPULimit :: string
  MemoryLimit :: string
  DataSize :: string
  SrcSize :: string
  GitEnabled :: bool
  GitUserName :: string
  GitUserEmail :: string
  CreatedAt :: Time
  UpdatedAt :: Time

record WorkspaceSecret =
  WorkspaceID :: string
  Key :: string
  Value :: string

record WorkspaceEvent =
  EventID :: int
  EventWorkspaceID :: string
  EventType :: string
  Message :: string
  Metadata :: string
  EventCreatedAt :: Time

text \<open>
  The \<^verbatim>\<open>Store\<close> interface. A method that takes a pointer and writes through it
  returns the struct as it is after the call; a method that changes the registry returns
  the new registry state. \<^verbatim>\<open>time.Now()\<close> and \<^verbatim>\<open>CURRENT_TIMESTAMP\<close> are the
  \<open>Time\<close> argument.
\<close>

record 's Store =
  Store_CreateWorkspace :: "Time \<Rightarrow> Workspace \<Rightarrow> 's \<Rightarrow> error option \<times> Workspace \<times> 's"
  Store_GetWorkspace :: "string \<Rightarrow> 's \<Rightarrow> Workspace option \<times> error option"
  Store_ListWorkspaces :: "'s \<Rightarrow> Workspace list \<times> error option"
  Store_UpdateWorkspace :: "Time \<Rightarrow> Workspace \<Rightarrow> 's \<Rightarrow> error option \<times> Workspace \<times> 's"
  Store_DeleteWorkspace :: "string \<Rightarrow> 's \<Rightarrow> error option \<times> 's"
  Store_SetSecret :: "WorkspaceSecret \<Rightarrow> 's \<Rightarrow> error option \<times> 's"
  Store_GetSecret :: "string \<Rightarrow> string \<Rightarrow> 's \<Rightarrow> string \<times> error option"
  Store_GetSecrets :: "string \<Rightarrow> 's \<Rightarrow> WorkspaceSecret list \<times> error option"
  Store_DeleteSecrets :: "string \<Rightarrow> 's \<Rightarrow> error option \<times> 's"
  Store_LogEvent :: "Time \<Rightarrow> WorkspaceEvent \<Rightarrow> 's \<Rightarrow> error option \<times> WorkspaceEvent \<times> 's"
  Store_GetEvents :: "string \<Rightarrow> int \<Rightarrow> 's \<Rightarrow> WorkspaceEvent list \<times> error option"

section \<open>The SQLite registry\<close>

text \<open>
  The database is its three tables, rows in insertion order, and the AUTOINCREMENT
  counter of \<^verbatim>\<open>workspace_events\<close>. Both revisions of the store open the database
  with foreign keys enforced, so a secret or an event of an unknown workspace is
  refused and deleting a workspace cascades. Failures of the disk or of a cancelled
  context are outside the model: a statement fails only on a constraint.
\<close>

record db =
  workspaces :: "Workspace list"
  workspace_secrets :: "WorkspaceSecret list"
  workspace_events :: "WorkspaceEvent list"
  events_seq :: int

definition empty_db :: db where
  "empty_db = \<lparr>workspaces = [], workspace_secrets = [], workspace_events = [], events_seq = 0\<rparr>"

definition has_workspace :: "db \<Rightarrow> string \<Rightarrow> bool" where
  "has_workspace d i = list_ex (\<lambda>w. ID w = i) (workspaces d)"

definition select_workspace :: "db \<Rightarrow> string \<Rightarrow> Workspace option" where
  "select_workspace d i = find (\<lambda>w. ID w = i) (workspaces d)"

definition insert_workspace :: "Workspace \<Rightarrow> db \<Rightarrow> error option \<times> db" where
  "insert_workspace w d =
     (if has_workspace d (ID w) then (Some ''UNIQUE constraint failed: workspaces.id'', d)
      else (None, d\<lparr>workspaces := workspaces d @ [w]\<rparr>))"

definition delete_workspace_cascade :: "string \<Rightarrow> db \<Rightarrow> db" where
  "delete_workspace_cascade i d =
     d\<lparr>workspaces := filter (\<lambda>w. ID w \<noteq> i) (workspaces d),
       workspace_secrets := filter (\<lambda>s. WorkspaceID s \<noteq> i) (workspace_secrets d),
       workspace_events := filter (\<lambda>e. EventWorkspaceID e \<noteq> i) (workspace_events d)\<rparr>"

definition upsert_secret :: "WorkspaceSecret \<Rightarrow> db \<Rightarrow> error option \<times> db" where
  "upsert_secret s d =
     (if \<not> has_workspace d (WorkspaceID s) then (Some ''FOREIGN KEY constraint failed'', d)
      else if list_ex (\<lambda>r. WorkspaceID r = WorkspaceID s \<and> Key r = Key s) (workspace_secrets d)
      then (None, d\<lparr>workspace_secrets :=
              map (\<lambda>r. if WorkspaceID r = WorkspaceID s \<and> Key r = Key s
                        then r\<lparr>Value := Value s\<rparr> else r) (workspace_secrets d)\<rparr>)
      else (None, d\<lparr>workspace_secrets := workspace_secrets d @ [s]\<rparr>))"

definition replace_secret :: "WorkspaceSecret \<Rightarrow> db \<Rightarrow> error option \<times> db" where
  "replace_secret s d =
     (if \<not> has_workspace d (WorkspaceID s) then (Some ''FOREIGN KEY constraint failed'', d)
      else (None, d\<lparr>workspace_secrets :=
              filter (\<lambda>r. \<not> (WorkspaceID r = WorkspaceID s \<and> Key r = Key s)) (workspace_secrets d)
              @ [s]\<rparr>))"

definition insert_event :: "Time \<Rightarrow> WorkspaceEvent \<Rightarrow> db \<Rightarrow> (error + int) \<times> db" where
  "insert_event t e d =
     (if \<not> has_workspace d (EventWorkspaceID e) then (Inl ''FOREIGN KEY constraint failed'', d)
      else let i = events_seq d + 1
           in (Inr i, d\<lparr>workspace_events := workspace_events d @ [e\<lparr>EventID := i, EventCreatedAt := t\<rparr>],
                        events_seq := i\<rparr>))"

text \<open>
  \<^verbatim>\<open>ORDER BY created_at DESC LIMIT ?\<close>: rows of equal timestamp come newest
  inserted first; a negative limit is no limit, as in SQLite.
\<close>

definition select_events :: "string \<Rightarrow> int \<Rightarrow> db \<Rightarrow> WorkspaceEvent list" where
  "select_events i limit d =
     (let rows = rev (sort_key EventCreatedAt (filter (\<lambda>e. EventWorkspaceID e = i) (workspace_events d)))
      in if limit < 0 then rows else take (nat limit) rows)"


subsection \<open>First revision of \<^verbatim>\<open>SQLiteStore\<close>: a missing workspace is an error\<close>

definition SQLiteStore1_CreateWorkspace :: "Time \<Rightarrow> Workspace \<Rightarrow> db \<Rightarrow> error option \<times> Workspace \<times> db" where
  "SQLiteStore1_CreateWorkspace t ws d =
     (case insert_workspace (ws\<lparr>CreatedAt := t, UpdatedAt := t\<rparr>) d of (err, d') \<Rightarrow> (err, ws, d'))"

definition SQLiteStore1_GetWorkspace :: "string \<Rightarrow> db \<Rightarrow> Workspace option \<times> error option" where
  "SQLiteStore1_GetWorkspace i d =
     (case select_workspace d i of
        None \<Rightarrow> (None, Some (''workspace not found: '' @ i))
      | Some ws \<Rightarrow> (Some ws, None))"

definition SQLiteStore1_ListWorkspaces :: "db \<Rightarrow> Workspace list \<times> error option" where
  "SQLiteStore1_ListWorkspaces d = (rev (sort_key CreatedAt (workspaces d)), None)"

definition SQLiteStore1_UpdateWorkspace :: "Time \<Rightarrow> Workspace \<Rightarrow> db \<Rightarrow> error option \<times> Workspace \<times> db" where
  "SQLiteStore1_UpdateWorkspace t ws d =
     (None, ws,
      d\<lparr>workspaces := map (\<lambda>r. if ID r = ID ws
           then r\<lparr>Name := Name ws, Status := Status ws, DockerImage := DockerImage ws,
                  DockerImageTag := DockerImageTag ws,
                  IngressHost := IngressHost ws,
                  CPURequest := CPURequest ws, MemoryRequest := MemoryRequest ws,
                  CPULimit := CPULimit ws, MemoryLimit := MemoryLimit ws,
                  DataSize := DataSize ws, SrcSize := SrcSize ws,
                  GitEnabled := GitEnabled ws, GitUserName := GitUserName ws,
                  GitUserEmail := GitUserEmail ws,
                  UpdatedAt := t\<rparr>
           else r) (workspaces d)\<rparr>)"

definition SQLiteStore1_DeleteWorkspace :: "string \<Rightarrow> db \<Rightarrow> error option \<times> db" where
  "SQLiteStore1_DeleteWorkspace i d = (None, delete_workspace_cascade i d)"

definition SQLiteStore1_SetSecret :: "WorkspaceSecret \<Rightarrow> db \<Rightarrow> error option \<times> db" where
  "SQLiteStore1_SetSecret secret d = upsert_secret secret d"

definition SQLiteStore1_GetSecret :: "string \<Rightarrow> string \<Rightarrow> db \<Rightarrow> string \<times> error option" where
  "SQLiteStore1_GetSecret workspaceID k d =
     (case find (\<lambda>r. WorkspaceID r = workspaceID \<and> Key r = k) (workspace_secrets d) of
        None \<Rightarrow> ([], Some ''secret not found'')
      | Some r \<Rightarrow> (Value r, None))"

definition SQLiteStore1_GetSecrets :: "string \<Rightarrow> db \<Rightarrow> WorkspaceSecret list \<times> error option" where
  "SQLiteStore1_GetSecrets workspaceID d =
     (map (\<lambda>r. \<lparr>WorkspaceID = workspaceID, Key = Key r, Value = Value r\<rparr>)
        (filter (\<lambda>r. WorkspaceID r = workspaceID) (workspace_secrets d)), None)"

definition SQLiteStore1_DeleteSecrets :: "string \<Rightarrow> db \<Rightarrow> error option \<times> db" where
  "SQLiteStore1_DeleteSecrets workspaceID d =
     (None, d\<lparr>workspace_secrets := filter (\<lambda>r. WorkspaceID r \<noteq> workspaceID) (workspace_secrets d)\<rparr>)"

definition SQLiteStore1_LogEvent :: "Time \<Rightarrow> WorkspaceEvent \<Rightarrow> db \<Rightarrow> error option \<times> WorkspaceEvent \<times> db" where
  "SQLiteStore1_LogEvent t event d =
     (case insert_event t event d of
        (Inl err, d') \<Rightarrow> (Some err, event, d')
      | (Inr i, d') \<Rightarrow> (None, event\<lparr>EventID := i, EventCreatedAt := t\<rparr>, d'))"

definition SQLiteStore1_GetEvents :: "string \<Rightarrow> int \<Rightarrow> db \<Rightarrow> WorkspaceEvent list \<times> error option" where
  "SQLiteStore1_GetEvents workspaceID limit d = (select_events workspaceID limit d, None)"

definition SQLiteStore1 :: "db Store" where
  "SQLiteStore1 =
     \<lparr>Store_CreateWorkspace = SQLiteStore1_CreateWorkspace,
      Store_GetWorkspace = SQLiteStore1_GetWorkspace,
      Store_ListWorkspaces = SQLiteStore1_ListWorkspaces,
      Store_UpdateWorkspace = SQLiteStore1_UpdateWorkspace,
      Store_DeleteWorkspace = SQLiteStore1_DeleteWorkspace,
      Store_SetSecret = SQLiteStore1_SetSecret,
      Store_GetSecret = SQLiteStore1_GetSecret,
      Store_GetSecrets = SQLiteStore1_GetSecrets,
      Store_DeleteSecrets = SQLiteStore1_DeleteSecrets,
      Store_LogEvent = SQLiteStore1_LogEvent,
      Store_GetEvents = SQLiteStore1_GetEvents\<rparr>"

subsection \<open>Second revision of \<^verbatim>\<open>SQLiteStore\<close>: a missing workspace is nil without error\<close>

definition SQLiteStore2_CreateWorkspace :: "Time \<Rightarrow> Workspace \<Rightarrow> db \<Rightarrow> error option \<times> Workspace \<times> db" where
  "SQLiteStore2_CreateWorkspace now ws0 d =
     (let ws1 = ws0\<lparr>CreatedAt := now, UpdatedAt := now\<rparr>;
          ws = (if Status ws1 = [] then ws1\<lparr>Status := StatusPending\<rparr> else ws1)
      in case insert_workspace ws d of (err, d') \<Rightarrow> (err, ws, d'))"

definition SQLiteStore2_GetWorkspace :: "string \<Rightarrow> db \<Rightarrow> Workspace option \<times> error option" where
  "SQLiteStore2_GetWorkspace i d =
     (case select_workspace d i of
        None \<Rightarrow> (None, None)
      | Some ws \<Rightarrow> (Some ws, None))"

definition SQLiteStore2_ListWorkspaces :: "db \<Rightarrow> Workspace list \<times> error option" where
  "SQLiteStore2_ListWorkspaces d = (rev (sort_key CreatedAt (workspaces d)), None)"

definition SQLiteStore2_UpdateWorkspace :: "Time \<Rightarrow> Workspace \<Rightarrow> db \<Rightarrow> error option \<times> Workspace \<times> db" where
  "SQLiteStore2_UpdateWorkspace now ws0 d =
     (let ws = ws0\<lparr>UpdatedAt := now\<rparr>
      in (None, ws,
          d\<lparr>workspaces := map (\<lambda>r. if ID r = ID ws
               then r\<lparr>Name := Name ws, Status := Status ws, DockerImage := DockerImage ws,
                      DockerImageTag := DockerImageTag ws,
                      HelmReleaseName := HelmReleaseName ws, Namespace := Namespace ws,
                      IngressHost := IngressHost ws,
                      CPURequest := CPURequest ws, MemoryRequest := MemoryRequest ws,
                      CPULimit := CPULimit ws, MemoryLimit := MemoryLimit ws,
                      DataSize := DataSize ws, SrcSize := SrcSize ws,
                      GitEnabled := GitEnabled ws, GitUserName := GitUserName ws,
                      GitUserEmail := GitUserEmail ws, UpdatedAt := UpdatedAt ws\<rparr>
               else r) (workspaces d)\<rparr>))"

definition SQLiteStore2_DeleteWorkspace :: "string \<Rightarrow> db \<Rightarrow> error option \<times> db" where
  "SQLiteStore2_DeleteWorkspace i d = (None, delete_workspace_cascade i d)"

definition SQLiteStore2_SetSecret :: "WorkspaceSecret \<Rightarrow> db \<Rightarrow> error option \<times> db" where
  "SQLiteStore2_SetSecret secret d = replace_secret secret d"

definition SQLiteStore2_GetSecret :: "string \<Rightarrow> string \<Rightarrow> db \<Rightarrow> string \<times> error option" where
  "SQLiteStore2_GetSecret workspaceID k d =
     (case find (\<lambda>r. WorkspaceID r = workspaceID \<and> Key r = k) (workspace_secrets d) of
        None \<Rightarrow> ([], None)
      | Some r \<Rightarrow> (Value r, None))"

definition SQLiteStore2_GetSecrets :: "string \<Rightarrow> db \<Rightarrow> WorkspaceSecret list \<times> error option" where
  "SQLiteStore2_GetSecrets workspaceID d =
     (filter (\<lambda>r. WorkspaceID r = workspaceID) (workspace_secrets d), None)"

definition SQLiteStore2_DeleteSecrets :: "string \<Rightarrow> db \<Rightarrow> error option \<times> db" where
  "SQLiteStore2_DeleteSecrets workspaceID d =
     (None, d\<lparr>workspace_secrets := filter (\<lambda>r. WorkspaceID r \<noteq> workspaceID) (workspace_secrets d)\<rparr>)"

definition SQLiteStore2_LogEvent :: "Time \<Rightarrow> WorkspaceEvent \<Rightarrow> db \<Rightarrow> error option \<times> WorkspaceEvent \<times> db" where
  "SQLiteStore2_LogEvent now event0 d =
     (let event = event0\<lparr>EventCreatedAt := now\<rparr>
      in case insert_event (EventCreatedAt event) event d of
           (Inl err, d') \<Rightarrow> (Some err, event, d')
         | (Inr i, d') \<Rightarrow> (None, event\<lparr>EventID := i\<rparr>, d'))"

definition SQLiteStore2_GetEvents :: "string \<Rightarrow> int \<Rightarrow> db \<Rightarrow> WorkspaceEvent list \<times> error option" where
  "SQLiteStore2_GetEvents workspaceID limit d = (select_events workspaceID limit d, None)"

definition SQLiteStore2 :: "db Store" where
  "SQLiteStore2 =
     \<lparr>Store_CreateWorkspace = SQLiteStore2_CreateWorkspace,
      Store_GetWorkspace = SQLiteStore2_GetWorkspace,
      Store_ListWorkspaces = SQLiteStore2_ListWorkspaces,
      Store_UpdateWorkspace = SQLiteStore2_UpdateWorkspace,
      Store_DeleteWorkspace = SQLiteStore2_DeleteWorkspace,
      Store_SetSecret = SQLiteStore2_SetSecret,
      Store_GetSecret = SQLiteStore2_GetSecret,
      Store_GetSecrets = SQLiteStore2_GetSecrets,
      Store_DeleteSecrets = SQLiteStore2_DeleteSecrets,
      Store_LogEvent = SQLiteStore2_LogEvent,
      Store_GetEvents = SQLiteStore2_GetEvents\<rparr>"

section \<open>The orchestrator port (internal/orchestrator/orchestrator.go)\<close>

record Orchestrator_WorkspaceStatus =
  Phase :: string
  Ready :: bool
  StatusMessage :: string
  PodIP :: string
  NodeName :: string
  StartTime :: string

text \<open>The interface, over a cluster state of type \<open>'c\<close>.\<close>

record 'c Orchestrator =
  Orchestrator_DeployWorkspace :: "Workspace \<Rightarrow> WorkspaceSecret list \<Rightarrow> 'c \<Rightarrow> error option \<times> 'c"
  Orchestrator_StopWorkspace :: "Workspace \<Rightarrow> 'c \<Rightarrow> error option \<times> 'c"
  Orchestrator_StartWorkspace :: "Workspace \<Rightarrow> 'c \<Rightarrow> error option \<times> 'c"
  Orchestrator_DeleteWorkspace :: "Workspace \<Rightarrow> 'c \<Rightarrow> error option \<times> 'c"
  Orchestrator_GetWorkspaceStatus :: "Workspace \<Rightarrow> 'c \<Rightarrow> Orchestrator_WorkspaceStatus option \<times> error option"

section \<open>The HTTP surface: request, response and helper functions\<close>

record CreateWorkspaceRequest =
  ReqName :: string
  ReqDockerImage :: string
  ReqDockerImageTag :: string
  ReqCPURequest :: string
  ReqMemoryRequest :: string
  ReqCPULimit :: string
  ReqMemoryLimit :: string
  ReqDataSize :: string
  ReqSrcSize :: string
  ReqGitUserName :: string
  ReqGitUserEmail :: string
  ReqSecrets :: "(string \<times> string) list"

text \<open>
  \<open>ReqSecrets\<close> is the Go map \<^verbatim>\<open>map[string]string\<close> in the order in which
  \<^verbatim>\<open>range\<close> visits it. The request is the decoded JSON body; what
  \<^verbatim>\<open>ShouldBindJSON\<close> adds is the check of the binding tags: \<^verbatim>\<open>required,min=1,max=63\<close>
  in package handlers, \<^verbatim>\<open>required\<close> in package api.
\<close>

definition ShouldBindJSON :: "CreateWorkspaceRequest \<Rightarrow> error option" where
  "ShouldBindJSON req =
     (if ReqName req = [] then
        Some ''Key: 'CreateWorkspaceRequest.Name' Error:Field validation for 'Name' failed on the 'required' tag''
      else if length (ReqName req) > 63 then
        Some ''Key: 'CreateWorkspaceRequest.Name' Error:Field validation for 'Name' failed on the 'max' tag''
      else None)"

definition api_ShouldBindJSON :: "CreateWorkspaceRequest \<Rightarrow> error option" where
  "api_ShouldBindJSON req =
     (if ReqName req = [] then
        Some ''Key: 'CreateWorkspaceRequest.Name' Error:Field validation for 'Name' failed on the 'required' tag''
      else None)"

record WorkspaceDTO =
  DTO_ID :: string
  DTO_Name :: string
  DTO_Status :: string
  DTO_DockerImage :: string
  DTO_DockerImageTag :: string
  DTO_HelmReleaseName :: string
  DTO_Namespace :: string
  DTO_IngressHost :: string
  DTO_CPURequest :: string
  DTO_MemoryRequest :: string
  DTO_CPULimit :: string
  DTO_MemoryLimit :: string
  DTO_DataSize :: string
  DTO_SrcSize :: string
  DTO_GitEnabled :: bool
  DTO_GitUserName :: string
  DTO_GitUserEmail :: string
  DTO_CreatedAt :: Time
  DTO_UpdatedAt :: Time
  DTO_DeploymentStatus :: "Orchestrator_WorkspaceStatus option"

record EventDTO =
  EventDTO_ID :: int
  EventDTO_WorkspaceID :: string
  EventDTO_EventType :: string
  EventDTO_Message :: string
  EventDTO_Metadata :: string
  EventDTO_CreatedAt :: Time

text \<open>
  The response envelopes of the two handler packages. \<open>api_EventListResponse\<close> carries
  the store's events themselves; \<open>ErrorResponse\<close> exists in package handlers only.
\<close>

datatype Body =
    WorkspaceResponse "WorkspaceDTO option" "string option"
  | WorkspaceListResponse "WorkspaceDTO list" "string option"
  | EventListResponse "EventDTO list" "string option"
  | api_EventListResponse "WorkspaceEvent list" "string option"
  | MessageResponse string "string option"
  | ErrorResponse string

text \<open>
  What a handler does with the request: one call of \<^verbatim>\<open>c.JSON(code, body)\<close>, or a
  run-time panic (a nil pointer dereference).
\<close>

datatype Outcome = JSON nat Body | Panic

abbreviation StatusOK :: nat where "StatusOK \<equiv> 200"
abbreviation StatusCreated :: nat where "StatusCreated \<equiv> 201"
abbreviation StatusBadRequest :: nat where "StatusBadRequest \<equiv> 400"
abbreviation StatusNotFound :: nat where "StatusNotFound \<equiv> 404"
abbreviation StatusInternalServerError :: nat where "StatusInternalServerError \<equiv> 500"

definition workspaceToDTO :: "Workspace \<Rightarrow> WorkspaceDTO" where
  "workspaceToDTO ws =
     \<lparr>DTO_ID = ID ws, DTO_Name = Name ws, DTO_Status = Status ws,
      DTO_DockerImage = DockerImage ws, DTO_DockerImageTag = DockerImageTag ws,
      DTO_HelmReleaseName = HelmReleaseName ws, DTO_Namespace = Namespace ws,
      DTO_IngressHost = IngressHost ws,
      DTO_CPURequest = CPURequest ws, DTO_MemoryRequest = MemoryRequest ws,
      DTO_CPULimit = CPULimit ws, DTO_MemoryLimit = MemoryLimit ws,
      DTO_DataSize = DataSize ws, DTO_SrcSize = SrcSize ws,
      DTO_GitEnabled = GitEnabled ws, DTO_GitUserName = GitUserName ws,
      DTO_GitUserEmail = GitUserEmail ws,
      DTO_CreatedAt = CreatedAt ws, DTO_UpdatedAt = UpdatedAt ws,
      DTO_DeploymentStatus = None\<rparr>"

text \<open>\<^verbatim>\<open>api.ToDTO\<close> copies the same fields (and formats the two timestamps).\<close>

definition ToDTO :: "Workspace \<Rightarrow> WorkspaceDTO" where
  "ToDTO ws =
     \<lparr>DTO_ID = ID ws, DTO_Name = Name ws, DTO_Status = Status ws,
      DTO_DockerImage = DockerImage ws, DTO_DockerImageTag = DockerImageTag ws,
      DTO_HelmReleaseName = HelmReleaseName ws, DTO_Namespace = Namespace ws,
      DTO_IngressHost = IngressHost ws,
      DTO_CPURequest = CPURequest ws, DTO_MemoryRequest = MemoryRequest ws,
      DTO_CPULimit = CPULimit ws, DTO_MemoryLimit = MemoryLimit ws,
      DTO_DataSize = DataSize ws, DTO_SrcSize = SrcSize ws,
      DTO_GitEnabled = GitEnabled ws, DTO_GitUserName = GitUserName ws,
      DTO_GitUserEmail = GitUserEmail ws,
      DTO_CreatedAt = CreatedAt ws, DTO_UpdatedAt = UpdatedAt ws,
      DTO_DeploymentStatus = None\<rparr>"

definition ToDTOWithStatus :: "Workspace \<Rightarrow> Orchestrator_WorkspaceStatus option \<Rightarrow> WorkspaceDTO" where
  "ToDTOWithStatus ws status = (ToDTO ws)\<lparr>DTO_DeploymentStatus := status\<rparr>"

definition eventToDTO :: "WorkspaceEvent \<Rightarrow> EventDTO" where
  "eventToDTO event =
     \<lparr>EventDTO_ID = EventID event, EventDTO_WorkspaceID = EventWorkspaceID event,
      EventDTO_EventType = EventType event, EventDTO_Message = Message event,
      EventDTO_Metadata = Metadata event, EventDTO_CreatedAt = EventCreatedAt event\<rparr>"

definition defaultString :: "string \<Rightarrow> string \<Rightarrow> string" where
  "defaultString val def = (if val = [] then def else val)"

subsection \<open>Library functions the handlers call\<close>

text \<open>
  Strings are ASCII byte strings. \<open>ParseInt10\<close> is \<^verbatim>\<open>strconv.ParseInt(s, 10, 64)\<close>
  with a nil error: an optional sign, then decimal digits only, the value within the
  64-bit \<^verbatim>\<open>int\<close>. \<^verbatim>\<open>strconv.Atoi\<close> accepts the same strings.
\<close>

definition is_digit :: "char \<Rightarrow> bool" where
  "is_digit c = (48 \<le> (of_char c :: nat) \<and> (of_char c :: nat) \<le> 57)"

fun digits_value :: "nat \<Rightarrow> string \<Rightarrow> nat option" where
  "digits_value n [] = Some n"
| "digits_value n (c # cs) =
     (if is_digit c then digits_value (n * 10 + (of_char c - 48)) cs else None)"

definition ParseInt10 :: "string \<Rightarrow> int option" where
  "ParseInt10 s =
     (case s of
        [] \<Rightarrow> None
      | c # r \<Rightarrow>
         let neg = (c = CHR ''-'');
             ds = (if c = CHR ''-'' \<or> c = CHR ''+'' then r else s)
         in if ds = [] then None
            else case digits_value 0 ds of
                   None \<Rightarrow> None
                 | Some n \<Rightarrow>
                    let v = (if neg then - int n else int n)
                    in if (- (2 ^ 63) \<le> v) \<and> (v \<le> 2 ^ 63 - 1) then Some v else None)"

definition Atoi :: "string \<Rightarrow> int option" where
  "Atoi s = ParseInt10 s"

text \<open>
  \<^verbatim>\<open>fmt.Sscanf(l, "%d", &limit)\<close>: leading blanks are skipped, a newline among them
  is an error, then an optional sign and the longest run of digits and underscores are
  read and handed to \<^verbatim>\<open>ParseInt\<close>; what follows the number is not looked at.
  \<open>None\<close> is any error, on which the variable keeps its value.
\<close>

definition isSpace :: "char \<Rightarrow> bool" where
  "isSpace c = ((9 \<le> (of_char c :: nat) \<and> (of_char c :: nat) \<le> 13) \<or> c = CHR '' '')"

fun SkipSpace :: "string \<Rightarrow> string option" where
  "SkipSpace [] = Some []"
| "SkipSpace (c # r) =
     (if c = CHR 0x0A then None
      else if isSpace c then SkipSpace r
      else Some (c # r))"

definition Sscanf_d :: "string \<Rightarrow> int option" where
  "Sscanf_d s =
     (case SkipSpace s of
        None \<Rightarrow> None
      | Some [] \<Rightarrow> None
      | Some (c # r) \<Rightarrow>
         let sg = (if c = CHR ''+'' \<or> c = CHR ''-'' then [c] else []);
             r1 = (if c = CHR ''+'' \<or> c = CHR ''-'' then r else c # r);
             tok = takeWhile (\<lambda>x. is_digit x \<or> x = CHR ''_'') r1
         in if tok = [] then None else ParseInt10 (sg @ tok))"

text \<open>
  \<^verbatim>\<open>sanitizeName\<close>: lower case, blanks to dashes, every rune other than a letter, a
  digit or a dash dropped, at most 53 bytes kept.
\<close>

definition ToLower :: "string \<Rightarrow> string" where
  "ToLower s = map (\<lambda>c. if 65 \<le> (of_char c :: nat) \<and> (of_char c :: nat) \<le> 90
                         then char_of ((of_char c :: nat) + 32) else c) s"

definition sanitizeName :: "string \<Rightarrow> string" where
  "sanitizeName name0 =
     (let name1 = ToLower name0;
          name2 = map (\<lambda>c. if c = CHR '' '' then CHR ''-'' else c) name1;
          result = filter (\<lambda>r. (97 \<le> (of_char r :: nat) \<and> (of_char r :: nat) \<le> 122)
                               \<or> is_digit r \<or> r = CHR ''-'') name2
      in if length result > 53 then take 53 result else result)"

section \<open>\<^verbatim>\<open>WorkspaceHandlers\<close>: the handlers that deploy in the request\<close>

text \<open>
  Each handler takes the store and the orchestrator it was built with, the path
  parameter or the request, and the state of registry and cluster; it returns what it
  sent and the state it left. The workspace id that \<^verbatim>\<open>uuid.New().String()[:8]\<close>
  draws is an argument of the create handlers. One instant \<open>now\<close> stands for every
  clock reading of a request.
\<close>

definition WorkspaceHandlers_ListWorkspaces ::
  "'s Store \<Rightarrow> 'c Orchestrator \<Rightarrow> 's \<times> 'c \<Rightarrow> Outcome \<times> 's \<times> 'c" where
  "WorkspaceHandlers_ListWorkspaces store orch = (\<lambda>(s, c).
     case Store_ListWorkspaces store s of
       (wss, Some err) \<Rightarrow>
         (JSON StatusInternalServerError (WorkspaceListResponse [] (Some err)), s, c)
     | (wss, None) \<Rightarrow>
         (JSON StatusOK (WorkspaceListResponse (map ToDTO wss) None), s, c))"

definition WorkspaceHandlers_GetWorkspace ::
  "'s Store \<Rightarrow> 'c Orchestrator \<Rightarrow> string \<Rightarrow> 's \<times> 'c \<Rightarrow> Outcome \<times> 's \<times> 'c" where
  "WorkspaceHandlers_GetWorkspace store orch i = (\<lambda>(s, c).
     case Store_GetWorkspace store i s of
       (_, Some err) \<Rightarrow>
         (JSON StatusInternalServerError (WorkspaceResponse None (Some err)), s, c)
     | (None, None) \<Rightarrow>
         (JSON StatusNotFound (WorkspaceResponse None (Some (''workspace not found: '' @ i))), s, c)
     | (Some ws, None) \<Rightarrow>
         (case Orchestrator_GetWorkspaceStatus orch ws c of
            (status, _) \<Rightarrow>
              (JSON StatusOK (WorkspaceResponse (Some (ToDTOWithStatus ws status)) None), s, c)))"

text \<open>
  The workspace struct that \<^verbatim>\<open>CreateWorkspace\<close> builds from the request, and the secrets
  it collects while it stores them.
\<close>

definition WorkspaceHandlers_CreateWorkspace_ws :: "string \<Rightarrow> CreateWorkspaceRequest \<Rightarrow> Workspace" where
  "WorkspaceHandlers_CreateWorkspace_ws i req =
     \<lparr>ID = i,
      Name = ReqName req,
      Status = StatusPending,
      DockerImage = defaultString (ReqDockerImage req) ''la-nuc-1:30500/hld'',
      DockerImageTag = defaultString (ReqDockerImageTag req) ''latest'',
      HelmReleaseName = ''hld-'' @ i,
      Namespace = ''workspace-'' @ i,
      IngressHost = ''workspace-'' @ i @ ''.workspaces.local'',
      CPURequest = defaultString (ReqCPURequest req) ''100m'',
      MemoryRequest = defaultString (ReqMemoryRequest req) ''256Mi'',
      CPULimit = defaultString (ReqCPULimit req) ''1'',
      MemoryLimit = defaultString (ReqMemoryLimit req) ''1Gi'',
      DataSize = defaultString (ReqDataSize req) ''1Gi'',
      SrcSize = defaultString (ReqSrcSize req) ''5Gi'',
      GitEnabled = (ReqGitUserName req \<noteq> [] \<and> ReqGitUserEmail req \<noteq> []),
      GitUserName = ReqGitUserName req,
      GitUserEmail = ReqGitUserEmail req,
      CreatedAt = 0, UpdatedAt = 0\<rparr>"

definition Create_secrets :: "string \<Rightarrow> CreateWorkspaceRequest \<Rightarrow> WorkspaceSecret list" where
  "Create_secrets i req = map (\<lambda>(k, v). \<lparr>WorkspaceID = i, Key = k, Value = v\<rparr>) (ReqSecrets req)"

definition WorkspaceHandlers_CreateWorkspace ::
  "'s Store \<Rightarrow> 'c Orchestrator \<Rightarrow> Time \<Rightarrow> string \<Rightarrow> CreateWorkspaceRequest
     \<Rightarrow> 's \<times> 'c \<Rightarrow> Outcome \<times> 's \<times> 'c" where
  "WorkspaceHandlers_CreateWorkspace store orch now i req = (\<lambda>(s, c).
     case api_ShouldBindJSON req of
       Some err \<Rightarrow>
         (JSON StatusBadRequest (WorkspaceResponse None (Some (''invalid request: '' @ err))), s, c)
     | None \<Rightarrow>
        (case Store_CreateWorkspace store now (WorkspaceHandlers_CreateWorkspace_ws i req) s of
           (Some err, ws, s1) \<Rightarrow>
             (JSON StatusInternalServerError (WorkspaceResponse None (Some err)), s1, c)
         | (None, ws, s1) \<Rightarrow>
            let secrets = Create_secrets i req;
                s2 = fold (\<lambda>secret st. snd (Store_SetSecret store secret st)) secrets s1;
                s3 = snd (snd (Store_LogEvent store now
                       \<lparr>EventID = 0, EventWorkspaceID = i, EventType = ''created'',
                        Message = ''Workspace '' @ Name ws @ '' created'',
                        Metadata = [], EventCreatedAt = 0\<rparr> s2))
            in (case Orchestrator_DeployWorkspace orch ws secrets c of
                  (Some err, c1) \<Rightarrow>
                    let s4 = snd (snd (Store_UpdateWorkspace store now (ws\<lparr>Status := StatusError\<rparr>) s3));
                        s5 = snd (snd (Store_LogEvent store now
                               \<lparr>EventID = 0, EventWorkspaceID = i, EventType = ''error'',
                                Message = ''Deployment failed: '' @ err,
                                Metadata = [], EventCreatedAt = 0\<rparr> s4))
                    in (JSON StatusInternalServerError
                          (WorkspaceResponse None (Some (''deployment failed: '' @ err))), s5, c1)
                | (None, c1) \<Rightarrow>
                    (case Store_UpdateWorkspace store now (ws\<lparr>Status := StatusRunning\<rparr>) s3 of
                       (_, ws1, s4) \<Rightarrow>
                         let s5 = snd (snd (Store_LogEvent store now
                                    \<lparr>EventID = 0, EventWorkspaceID = i, EventType = ''deployed'',
                                     Message = ''Helm release installed'',
                                     Metadata = [], EventCreatedAt = 0\<rparr> s4))
                         in (JSON StatusCreated (WorkspaceResponse (Some (ToDTO ws1)) None), s5, c1)))))"

definition WorkspaceHandlers_DeleteWorkspace ::
  "'s Store \<Rightarrow> 'c Orchestrator \<Rightarrow> string \<Rightarrow> 's \<times> 'c \<Rightarrow> Outcome \<times> 's \<times> 'c" where
  "WorkspaceHandlers_DeleteWorkspace store orch i = (\<lambda>(s, c).
     case Store_GetWorkspace store i s of
       (_, Some err) \<Rightarrow>
         (JSON StatusInternalServerError (MessageResponse [] (Some err)), s, c)
     | (None, None) \<Rightarrow>
         (JSON StatusNotFound (MessageResponse [] (Some (''workspace not found: '' @ i))), s, c)
     | (Some ws, None) \<Rightarrow>
         let c1 = snd (Orchestrator_DeleteWorkspace orch ws c);
             s1 = snd (Store_DeleteSecrets store i s)
         in (case Store_DeleteWorkspace store i s1 of
               (Some err, s2) \<Rightarrow>
                 (JSON StatusInternalServerError (MessageResponse [] (Some err)), s2, c1)
             | (None, s2) \<Rightarrow>
                 (JSON StatusOK (MessageResponse (''Workspace '' @ i @ '' deleted'') None), s2, c1)))"

definition WorkspaceHandlers_StartWorkspace ::
  "'s Store \<Rightarrow> 'c Orchestrator \<Rightarrow> Time \<Rightarrow> string \<Rightarrow> 's \<times> 'c \<Rightarrow> Outcome \<times> 's \<times> 'c" where
  "WorkspaceHandlers_StartWorkspace store orch now i = (\<lambda>(s, c).
     case Store_GetWorkspace store i s of
       (_, Some err) \<Rightarrow>
         (JSON StatusInternalServerError (WorkspaceResponse None (Some err)), s, c)
     | (None, None) \<Rightarrow>
         (JSON StatusNotFound (WorkspaceResponse None (Some (''workspace not found: '' @ i))), s, c)
     | (Some ws, None) \<Rightarrow>
         (case Orchestrator_StartWorkspace orch ws c of
            (Some err, c1) \<Rightarrow>
              (JSON StatusInternalServerError
                 (WorkspaceResponse None (Some (''failed to start: '' @ err))), s, c1)
          | (None, c1) \<Rightarrow>
              (case Store_UpdateWorkspace store now (ws\<lparr>Status := StatusRunning\<rparr>) s of
                 (_, ws1, s1) \<Rightarrow>
                   let s2 = snd (snd (Store_LogEvent store now
                              \<lparr>EventID = 0, EventWorkspaceID = i, EventType = ''started'',
                               Message = ''Workspace started'',
                               Metadata = [], EventCreatedAt = 0\<rparr> s1))
                   in (JSON StatusOK (WorkspaceResponse (Some (ToDTO ws1)) None), s2, c1))))"

definition WorkspaceHandlers_StopWorkspace ::
  "'s Store \<Rightarrow> 'c Orchestrator \<Rightarrow> Time \<Rightarrow> string \<Rightarrow> 's \<times> 'c \<Rightarrow> Outcome \<times> 's \<times> 'c" where
  "WorkspaceHandlers_StopWorkspace store orch now i = (\<lambda>(s, c).
     case Store_GetWorkspace store i s of
       (_, Some err) \<Rightarrow>
         (JSON StatusInternalServerError (WorkspaceResponse None (Some err)), s, c)
     | (None, None) \<Rightarrow>
         (JSON StatusNotFound (WorkspaceResponse None (Some (''workspace not found: '' @ i))), s, c)
     | (Some ws, None) \<Rightarrow>
         (case Orchestrator_StopWorkspace orch ws c of
            (Some err, c1) \<Rightarrow>
              (JSON StatusInternalServerError
                 (WorkspaceResponse None (Some (''failed to stop: '' @ err))), s, c1)
          | (None, c1) \<Rightarrow>
              (case Store_UpdateWorkspace store now (ws\<lparr>Status := StatusStopped\<rparr>) s of
                 (_, ws1, s1) \<Rightarrow>
                   let s2 = snd (snd (Store_LogEvent store now
                              \<lparr>EventID = 0, EventWorkspaceID = i, EventType = ''stopped'',
                               Message = ''Workspace stopped'',
                               Metadata = [], EventCreatedAt = 0\<rparr> s1))
                   in (JSON StatusOK (WorkspaceResponse (Some (ToDTO ws1)) None), s2, c1))))"

text \<open>
  \<open>WorkspaceHandlers_GetEvents_limit\<close> is the limit the handler hands to the store; the
  query parameter is \<open>[]\<close> when absent.
\<close>

definition WorkspaceHandlers_GetEvents_limit :: "string \<Rightarrow> int" where
  "WorkspaceHandlers_GetEvents_limit l =
     (if l \<noteq> [] then (case Sscanf_d l of Some n \<Rightarrow> n | None \<Rightarrow> 50) else 50)"

definition WorkspaceHandlers_GetEvents ::
  "'s Store \<Rightarrow> 'c Orchestrator \<Rightarrow> string \<Rightarrow> string \<Rightarrow> 's \<times> 'c \<Rightarrow> Outcome \<times> 's \<times> 'c" where
  "WorkspaceHandlers_GetEvents store orch i l = (\<lambda>(s, c).
     case Store_GetEvents store i (WorkspaceHandlers_GetEvents_limit l) s of
       (events, Some err) \<Rightarrow>
         (JSON StatusInternalServerError (api_EventListResponse [] (Some err)), s, c)
     | (events, None) \<Rightarrow>
         (JSON StatusOK (api_EventListResponse events None), s, c))"

section \<open>\<^verbatim>\<open>WorkspaceHandler\<close>: the handlers that deploy in the background\<close>

text \<open>
  The orchestrator of this handler may be nil (\<open>None\<close>). A nil workspace that is
  dereferenced is the outcome \<open>Panic\<close>.
\<close>

definition WorkspaceHandler_List ::
  "'s Store \<Rightarrow> 'c Orchestrator option \<Rightarrow> 's \<times> 'c \<Rightarrow> Outcome \<times> 's \<times> 'c" where
  "WorkspaceHandler_List store orch = (\<lambda>(s, c).
     case Store_ListWorkspaces store s of
       (wss, Some err) \<Rightarrow>
         (JSON StatusInternalServerError (ErrorResponse ''Failed to list workspaces''), s, c)
     | (wss, None) \<Rightarrow>
         (JSON StatusOK
            (WorkspaceListResponse
               (map (\<lambda>ws. let dto = workspaceToDTO ws
                          in case orch of
                               None \<Rightarrow> dto
                             | Some orc \<Rightarrow>
                                if Status ws = StatusRunning
                                then (case Orchestrator_GetWorkspaceStatus orc ws c of
                                        (status, None) \<Rightarrow> dto\<lparr>DTO_DeploymentStatus := status\<rparr>
                                      | (status, Some err) \<Rightarrow> dto)
                                else dto) wss)
               None), s, c))"

text \<open>
  \<open>WorkspaceHandler_Create\<close> is the handler up to its response. Its second result is
  what the goroutine it starts has captured (nothing when the orchestrator is nil): the
  workspace variable, already reloaded, and the secrets. \<open>WorkspaceHandler_Create_deploy\<close>
  is the body of that goroutine, run after the response. \<open>WorkspaceHandler_Create_ws\<close>
  is the workspace struct the handler builds from the request.
\<close>

definition WorkspaceHandler_Create_ws :: "string \<Rightarrow> CreateWorkspaceRequest \<Rightarrow> Workspace" where
  "WorkspaceHandler_Create_ws i req =
     (let sanitizedName = sanitizeName (ReqName req);
          helmReleaseName = ''ws-'' @ i;
          namespace = ''ws-'' @ i;
          dockerImage = (if ReqDockerImage req = [] then ''hld'' else ReqDockerImage req);
          dockerImageTag = (if ReqDockerImageTag req = [] then ''latest'' else ReqDockerImageTag req);
          gitEnabled0 = (ReqGitUserName req \<noteq> [] \<or> ReqGitUserEmail req \<noteq> []);
          gitEnabled = (if map_of (ReqSecrets req) ''gh_token'' \<noteq> None then True else gitEnabled0)
      in \<lparr>ID = i,
          Name = ReqName req,
          Status = StatusPending,
          DockerImage = dockerImage,
          DockerImageTag = dockerImageTag,
          HelmReleaseName = helmReleaseName,
          Namespace = namespace,
          IngressHost = sanitizedName @ ''.workspaces.local'',
          CPURequest = ReqCPURequest req,
          MemoryRequest = ReqMemoryRequest req,
          CPULimit = ReqCPULimit req,
          MemoryLimit = ReqMemoryLimit req,
          DataSize = ReqDataSize req,
          SrcSize = ReqSrcSize req,
          GitEnabled = gitEnabled,
          GitUserName = ReqGitUserName req,
          GitUserEmail = ReqGitUserEmail req,
          CreatedAt = 0, UpdatedAt = 0\<rparr>)"

definition WorkspaceHandler_Create ::
  "'s Store \<Rightarrow> 'c Orchestrator option \<Rightarrow> Time \<Rightarrow> string \<Rightarrow> CreateWorkspaceRequest
     \<Rightarrow> 's \<Rightarrow> Outcome \<times> (Workspace \<times> WorkspaceSecret list) option \<times> 's" where
  "WorkspaceHandler_Create store orch now i req s =
     (case ShouldBindJSON req of
        Some err \<Rightarrow> (JSON StatusBadRequest (ErrorResponse (''Invalid request: '' @ err)), None, s)
      | None \<Rightarrow>
         (case Store_CreateWorkspace store now (WorkspaceHandler_Create_ws i req) s of
            (Some err, ws, s1) \<Rightarrow>
              (JSON StatusInternalServerError (ErrorResponse ''Failed to create workspace''), None, s1)
          | (None, ws, s1) \<Rightarrow>
             let secrets = Create_secrets i req;
                 s2 = fold (\<lambda>secret st. snd (Store_SetSecret store secret st)) secrets s1;
                 s3 = snd (snd (Store_LogEvent store now
                        \<lparr>EventID = 0, EventWorkspaceID = i, EventType = ''created'',
                         Message = ''Workspace '' @ [CHR 0x27] @ ReqName req @ [CHR 0x27] @ '' created'',
                         Metadata = [], EventCreatedAt = 0\<rparr> s2))
             in (case Store_GetWorkspace store i s3 of
                   (None, _) \<Rightarrow> (Panic, None, s3)
                 | (Some ws1, _) \<Rightarrow>
                     (JSON StatusCreated (WorkspaceResponse (Some (workspaceToDTO ws1)) None),
                      (if orch = None then None else Some (ws1, secrets)), s3))))"

definition WorkspaceHandler_Create_deploy ::
  "'s Store \<Rightarrow> 'c Orchestrator \<Rightarrow> Time \<Rightarrow> string \<Rightarrow> Workspace \<Rightarrow> WorkspaceSecret list
     \<Rightarrow> 's \<times> 'c \<Rightarrow> 's \<times> 'c" where
  "WorkspaceHandler_Create_deploy store orc now i ws secrets = (\<lambda>(s, c).
     case Orchestrator_DeployWorkspace orc ws secrets c of
       (Some err, c1) \<Rightarrow>
         let s1 = snd (snd (Store_UpdateWorkspace store now (ws\<lparr>Status := StatusError\<rparr>) s));
             s2 = snd (snd (Store_LogEvent store now
                    \<lparr>EventID = 0, EventWorkspaceID = i, EventType = ''error'',
                     Message = ''Deployment failed: '' @ err,
                     Metadata = [], EventCreatedAt = 0\<rparr> s1))
         in (s2, c1)
     | (None, c1) \<Rightarrow>
         let s1 = snd (snd (Store_UpdateWorkspace store now (ws\<lparr>Status := StatusRunning\<rparr>) s));
             s2 = snd (snd (Store_LogEvent store now
                    \<lparr>EventID = 0, EventWorkspaceID = i, EventType = ''started'',
                     Message = ''Workspace deployed successfully'',
                     Metadata = [], EventCreatedAt = 0\<rparr> s1))
         in (s2, c1))"

text \<open>The handler followed by its goroutine: a whole create request.\<close>

definition WorkspaceHandler_Create_request ::
  "'s Store \<Rightarrow> 'c Orchestrator option \<Rightarrow> Time \<Rightarrow> string \<Rightarrow> CreateWorkspaceRequest
     \<Rightarrow> 's \<times> 'c \<Rightarrow> Outcome \<times> 's \<times> 'c" where
  "WorkspaceHandler_Create_request store orch now i req = (\<lambda>(s, c).
     case WorkspaceHandler_Create store orch now i req s of
       (out, None, s1) \<Rightarrow> (out, s1, c)
     | (out, Some (ws, secrets), s1) \<Rightarrow>
         (case orch of
            None \<Rightarrow> (out, s1, c)
          | Some orc \<Rightarrow>
             (case WorkspaceHandler_Create_deploy store orc now i ws secrets (s1, c) of
                (s2, c2) \<Rightarrow> (out, s2, c2))))"

definition WorkspaceHandler_Get ::
  "'s Store \<Rightarrow> 'c Orchestrator option \<Rightarrow> string \<Rightarrow> 's \<times> 'c \<Rightarrow> Outcome \<times> 's \<times> 'c" where
  "WorkspaceHandler_Get store orch i = (\<lambda>(s, c).
     case Store_GetWorkspace store i s of
       (_, Some err) \<Rightarrow> (JSON StatusNotFound (ErrorResponse ''Workspace not found''), s, c)
     | (None, None) \<Rightarrow> (Panic, s, c)
     | (Some ws, None) \<Rightarrow>
         let dto = workspaceToDTO ws
         in (case orch of
               None \<Rightarrow> (JSON StatusOK (WorkspaceResponse (Some dto) None), s, c)
             | Some orc \<Rightarrow>
                (case Orchestrator_GetWorkspaceStatus orc ws c of
                   (status, None) \<Rightarrow>
                     (JSON StatusOK (WorkspaceResponse (Some (dto\<lparr>DTO_DeploymentStatus := status\<rparr>)) None), s, c)
                 | (status, Some err) \<Rightarrow>
                     (JSON StatusOK (WorkspaceResponse (Some dto) None), s, c))))"

text \<open>
  Delete hands a nil workspace to the orchestrator, whose Helm implementations read
  its id at once, and reads its name for the message otherwise: \<open>Panic\<close> either way.
\<close>

definition WorkspaceHandler_Delete ::
  "'s Store \<Rightarrow> 'c Orchestrator option \<Rightarrow> string \<Rightarrow> 's \<times> 'c \<Rightarrow> Outcome \<times> 's \<times> 'c" where
  "WorkspaceHandler_Delete store orch i = (\<lambda>(s, c).
     case Store_GetWorkspace store i s of
       (_, Some err) \<Rightarrow> (JSON StatusNotFound (ErrorResponse ''Workspace not found''), s, c)
     | (None, None) \<Rightarrow> (Panic, s, c)
     | (Some ws, None) \<Rightarrow>
         let c1 = (case orch of None \<Rightarrow> c | Some orc \<Rightarrow> snd (Orchestrator_DeleteWorkspace orc ws c))
         in (case Store_DeleteWorkspace store i s of
               (Some err, s1) \<Rightarrow>
                 (JSON StatusInternalServerError (ErrorResponse ''Failed to delete workspace''), s1, c1)
             | (None, s1) \<Rightarrow>
                 (JSON StatusOK (MessageResponse (''Workspace '' @ [CHR 0x27] @ Name ws @ [CHR 0x27] @ '' deleted'') None), s1, c1)))"

definition WorkspaceHandler_Start ::
  "'s Store \<Rightarrow> 'c Orchestrator option \<Rightarrow> Time \<Rightarrow> string \<Rightarrow> 's \<times> 'c \<Rightarrow> Outcome \<times> 's \<times> 'c" where
  "WorkspaceHandler_Start store orch now i = (\<lambda>(s, c).
     case Store_GetWorkspace store i s of
       (_, Some err) \<Rightarrow> (JSON StatusNotFound (ErrorResponse ''Workspace not found''), s, c)
     | (None, None) \<Rightarrow> (Panic, s, c)
     | (Some ws, None) \<Rightarrow>
         if Status ws = StatusRunning
         then (JSON StatusBadRequest (ErrorResponse ''Workspace is already running''), s, c)
         else (case (case orch of None \<Rightarrow> (None, c)
                               | Some orc \<Rightarrow> Orchestrator_StartWorkspace orc ws c) of
                 (Some err, c1) \<Rightarrow>
                   (JSON StatusInternalServerError (ErrorResponse ''Failed to start workspace''), s, c1)
               | (None, c1) \<Rightarrow>
                   let s1 = snd (snd (Store_UpdateWorkspace store now (ws\<lparr>Status := StatusRunning\<rparr>) s));
                       s2 = snd (snd (Store_LogEvent store now
                              \<lparr>EventID = 0, EventWorkspaceID = i, EventType = ''started'',
                               Message = ''Workspace started'',
                               Metadata = [], EventCreatedAt = 0\<rparr> s1))
                   in (case Store_GetWorkspace store i s2 of
                         (None, _) \<Rightarrow> (Panic, s2, c1)
                       | (Some ws1, _) \<Rightarrow>
                           (JSON StatusOK (WorkspaceResponse (Some (workspaceToDTO ws1)) None), s2, c1))))"

definition WorkspaceHandler_Stop ::
  "'s Store \<Rightarrow> 'c Orchestrator option \<Rightarrow> Time \<Rightarrow> string \<Rightarrow> 's \<times> 'c \<Rightarrow> Outcome \<times> 's \<times> 'c" where
  "WorkspaceHandler_Stop store orch now i = (\<lambda>(s, c).
     case Store_GetWorkspace store i s of
       (_, Some err) \<Rightarrow> (JSON StatusNotFound (ErrorResponse ''Workspace not found''), s, c)
     | (None, None) \<Rightarrow> (Panic, s, c)
     | (Some ws, None) \<Rightarrow>
         if Status ws = StatusStopped
         then (JSON StatusBadRequest (ErrorResponse ''Workspace is already stopped''), s, c)
         else (case (case orch of None \<Rightarrow> (None, c)
                               | Some orc \<Rightarrow> Orchestrator_StopWorkspace orc ws c) of
                 (Some err, c1) \<Rightarrow>
                   (JSON StatusInternalServerError (ErrorResponse ''Failed to stop workspace''), s, c1)
               | (None, c1) \<Rightarrow>
                   let s1 = snd (snd (Store_UpdateWorkspace store now (ws\<lparr>Status := StatusStopped\<rparr>) s));
                       s2 = snd (snd (Store_LogEvent store now
                              \<lparr>EventID = 0, EventWorkspaceID = i, EventType = ''stopped'',
                               Message = ''Workspace stopped'',
                               Metadata = [], EventCreatedAt = 0\<rparr> s1))
                   in (case Store_GetWorkspace store i s2 of
                         (None, _) \<Rightarrow> (Panic, s2, c1)
                       | (Some ws1, _) \<Rightarrow>
                           (JSON StatusOK (WorkspaceResponse (Some (workspaceToDTO ws1)) None), s2, c1))))"

definition WorkspaceHandler_Events_limit :: "string \<Rightarrow> int" where
  "WorkspaceHandler_Events_limit limitStr =
     (if limitStr \<noteq> []
      then (case Atoi limitStr of
              Some l \<Rightarrow> if l > 0 \<and> l \<le> 100 then l else 50
            | None \<Rightarrow> 50)
      else 50)"

definition WorkspaceHandler_Events ::
  "'s Store \<Rightarrow> 'c Orchestrator option \<Rightarrow> string \<Rightarrow> string \<Rightarrow> 's \<times> 'c \<Rightarrow> Outcome \<times> 's \<times> 'c" where
  "WorkspaceHandler_Events store orch i limitStr = (\<lambda>(s, c).
     case Store_GetWorkspace store i s of
       (_, Some err) \<Rightarrow> (JSON StatusNotFound (ErrorResponse ''Workspace not found''), s, c)
     | (_, None) \<Rightarrow>
         (case Store_GetEvents store i (WorkspaceHandler_Events_limit limitStr) s of
            (events, Some err) \<Rightarrow>
              (JSON StatusInternalServerError (ErrorResponse ''Failed to get events''), s, c)
          | (events, None) \<Rightarrow>
              (JSON StatusOK (EventListResponse (map eventToDTO events) None), s, c)))"

section \<open>Routing\<close>

text \<open>
  The routes under \<^verbatim>\<open>/api/v1\<close>. \<open>NewRouter\<close> (internal/api/router.go) serves them with
  \<^verbatim>\<open>WorkspaceHandler\<close>, the second \<^verbatim>\<open>main\<close> with \<^verbatim>\<open>WorkspaceHandlers\<close>. A create
  request of \<open>NewRouter\<close> includes the deployment it leaves running in the background.
\<close>

datatype Request =
    GET_workspaces
  | POST_workspaces string CreateWorkspaceRequest
  | GET_workspace string
  | DELETE_workspace string
  | POST_start string
  | POST_stop string
  | GET_events string string

definition NewRouter ::
  "'s Store \<Rightarrow> 'c Orchestrator option \<Rightarrow> Time \<Rightarrow> Request \<Rightarrow> 's \<times> 'c \<Rightarrow> Outcome \<times> 's \<times> 'c" where
  "NewRouter store orch now r =
     (case r of
        GET_workspaces \<Rightarrow> WorkspaceHandler_List store orch
      | POST_workspaces i req \<Rightarrow> WorkspaceHandler_Create_request store orch now i req
      | GET_workspace i \<Rightarrow> WorkspaceHandler_Get store orch i
      | DELETE_workspace i \<Rightarrow> WorkspaceHandler_Delete store orch i
      | POST_start i \<Rightarrow> WorkspaceHandler_Start store orch now i
      | POST_stop i \<Rightarrow> WorkspaceHandler_Stop store orch now i
      | GET_events i l \<Rightarrow> WorkspaceHandler_Events store orch i l)"

definition main_routes ::
  "'s Store \<Rightarrow> 'c Orchestrator \<Rightarrow> Time \<Rightarrow> Request \<Rightarrow> 's \<times> 'c \<Rightarrow> Outcome \<times> 's \<times> 'c" where
  "main_routes store orch now r =
     (case r of
        GET_workspaces \<Rightarrow> WorkspaceHandlers_ListWorkspaces store orch
      | POST_workspaces i req \<Rightarrow> WorkspaceHandlers_CreateWorkspace store orch now i req
      | GET_workspace i \<Rightarrow> WorkspaceHandlers_GetWorkspace store orch i
      | DELETE_workspace i \<Rightarrow> WorkspaceHandlers_DeleteWorkspace store orch i
      | POST_start i \<Rightarrow> WorkspaceHandlers_StartWorkspace store orch now i
      | POST_stop i \<Rightarrow> WorkspaceHandlers_StopWorkspace store orch now i
      | GET_events i l \<Rightarrow> WorkspaceHandlers_GetEvents store orch i l)"

section \<open>Orchestrators\<close>

subsection \<open>\<^verbatim>\<open>MockOrchestrator\<close> of the handler tests\<close>

definition MockOrchestrator :: "error option \<Rightarrow> unit Orchestrator" where
  "MockOrchestrator deployError =
     \<lparr>Orchestrator_DeployWorkspace = (\<lambda>ws secrets c. (deployError, c)),
      Orchestrator_StopWorkspace = (\<lambda>ws c. (None, c)),
      Orchestrator_StartWorkspace = (\<lambda>ws c. (None, c)),
      Orchestrator_DeleteWorkspace = (\<lambda>ws c. (None, c)),
      Orchestrator_GetWorkspaceStatus = (\<lambda>ws c.
        (Some \<lparr>Phase = ''Running'', Ready = True, StatusMessage = [], PodIP = [],
                NodeName = [], StartTime = []\<rparr>, None))\<rparr>"

subsection \<open>\<^verbatim>\<open>HelmOrchestrator.DeleteWorkspace\<close>\<close>

text \<open>
  The Helm and Kubernetes client calls that \<^verbatim>\<open>DeleteWorkspace\<close> makes, over a cluster
  state \<open>'c\<close>: initialising the action configuration for a namespace, running the
  uninstall action on a release of that namespace, deleting a namespace.
\<close>

record 'c Helm =
  actionConfig_Init :: "string \<Rightarrow> 'c \<Rightarrow> error option"
  Uninstall_Run :: "string \<Rightarrow> string \<Rightarrow> 'c \<Rightarrow> error option \<times> 'c"
  Namespaces_Delete :: "string \<Rightarrow> 'c \<Rightarrow> error option \<times> 'c"

text \<open>
  The revision that reads release name and namespace from the workspace record and
  returns a failed uninstall to its caller.
\<close>

definition HelmOrchestrator1_DeleteWorkspace :: "'c Helm \<Rightarrow> Workspace \<Rightarrow> 'c \<Rightarrow> error option \<times> 'c" where
  "HelmOrchestrator1_DeleteWorkspace h ws c =
     (case actionConfig_Init h (Namespace ws) c of
        Some err \<Rightarrow> (Some (''failed to init helm action config: '' @ err), c)
      | None \<Rightarrow>
         (case Uninstall_Run h (Namespace ws) (HelmReleaseName ws) c of
            (Some err, c1) \<Rightarrow> (Some (''failed to uninstall helm release: '' @ err), c1)
          | (None, c1) \<Rightarrow> (None, snd (Namespaces_Delete h (Namespace ws) c1))))"

text \<open>
  The revision of internal/orchestrator/helm.go: it derives both names from the id, and
  logs a failed uninstall and goes on.
\<close>

definition HelmOrchestrator2_DeleteWorkspace :: "'c Helm \<Rightarrow> Workspace \<Rightarrow> 'c \<Rightarrow> error option \<times> 'c" where
  "HelmOrchestrator2_DeleteWorkspace h ws c =
     (let namespace = ''workspace-'' @ ID ws;
          releaseName = ''hld-'' @ ID ws
      in case actionConfig_Init h namespace c of
           Some err \<Rightarrow> (Some (''failed to init helm action config: '' @ err), c)
         | None \<Rightarrow>
            let c1 = snd (Uninstall_Run h namespace releaseName c);
                c2 = snd (Namespaces_Delete h namespace c1)
            in (None, c2))"

text \<open>
  A cluster to run them on: the installed releases, as pairs of namespace and name, and
  the namespaces. Uninstalling a release that is not installed fails with Helm's
  message, deleting a namespace that does not exist fails too.
\<close>

record cluster =
  releases :: "(string \<times> string) list"
  namespaces :: "string list"

definition cluster_Helm :: "cluster Helm" where
  "cluster_Helm =
     \<lparr>actionConfig_Init = (\<lambda>ns c. None),
      Uninstall_Run = (\<lambda>ns rel c.
        if (ns, rel) \<in> set (releases c)
        then (None, c\<lparr>releases := removeAll (ns, rel) (releases c)\<rparr>)
        else (Some (''uninstall: Release not loaded: '' @ rel @ '': release: not found''), c)),
      Namespaces_Delete = (\<lambda>ns c.
        if ns \<in> set (namespaces c)
        then (None, c\<lparr>namespaces := removeAll ns (namespaces c)\<rparr>)
        else (Some (''namespaces '' @ ns @ '' not found''), c))\<rparr>"

section \<open>Properties of a registry state\<close>

text \<open>
  \<open>names_derived rp np d\<close>: every stored workspace has the helm release name \<open>rp\<close>
  followed by its id and the namespace \<open>np\<close> followed by its id.
\<close>

definition names_derived :: "string \<Rightarrow> string \<Rightarrow> db \<Rightarrow> bool" where
  "names_derived rp np d =
     list_all (\<lambda>w. HelmReleaseName w = rp @ ID w \<and> Namespace w = np @ ID w) (workspaces d)"

text \<open>
  \<open>contains s sub\<close> is \<^verbatim>\<open>strings.Contains(s, sub)\<close>. \<open>Body_strings\<close> and
  \<open>Outcome_strings\<close> list the strings a response body carries.
\<close>

fun starts_with :: "string \<Rightarrow> string \<Rightarrow> bool" where
  "starts_with s [] = True"
| "starts_with [] (c # cs) = False"
| "starts_with (x # xs) (c # cs) = (x = c \<and> starts_with xs cs)"

fun contains :: "string \<Rightarrow> string \<Rightarrow> bool" where
  "contains [] sub = (sub = [])"
| "contains (x # xs) sub = (starts_with (x # xs) sub \<or> contains xs sub)"

definition WorkspaceDTO_strings :: "WorkspaceDTO \<Rightarrow> string list" where
  "WorkspaceDTO_strings dto =
     [DTO_ID dto, DTO_Name dto, DTO_Status dto, DTO_DockerImage dto, DTO_DockerImageTag dto,
      DTO_HelmReleaseName dto, DTO_Namespace dto, DTO_IngressHost dto, DTO_CPURequest dto,
      DTO_MemoryRequest dto, DTO_CPULimit dto, DTO_MemoryLimit dto, DTO_DataSize dto,
      DTO_SrcSize dto, DTO_GitUserName dto, DTO_GitUserEmail dto]
     @ (case DTO_DeploymentStatus dto of
          None \<Rightarrow> []
        | Some st \<Rightarrow> [Phase st, StatusMessage st, PodIP st, NodeName st, StartTime st])"

definition Body_strings :: "Body \<Rightarrow> string list" where
  "Body_strings b =
     (case b of
        WorkspaceResponse dto err \<Rightarrow>
          (case dto of None \<Rightarrow> [] | Some x \<Rightarrow> WorkspaceDTO_strings x)
          @ (case err of None \<Rightarrow> [] | Some e \<Rightarrow> [e])
      | WorkspaceListResponse dtos err \<Rightarrow>
          concat (map WorkspaceDTO_strings dtos) @ (case err of None \<Rightarrow> [] | Some e \<Rightarrow> [e])
      | EventListResponse events err \<Rightarrow>
          concat (map (\<lambda>e. [EventDTO_WorkspaceID e, EventDTO_EventType e, EventDTO_Message e,
                             EventDTO_Metadata e]) events)
          @ (case err of None \<Rightarrow> [] | Some e \<Rightarrow> [e])
      | api_EventListResponse events err \<Rightarrow>
          concat (map (\<lambda>e. [EventWorkspaceID e, EventType e, Message e, Metadata e]) events)
          @ (case err of None \<Rightarrow> [] | Some e \<Rightarrow> [e])
      | MessageResponse m err \<Rightarrow> m # (case err of None \<Rightarrow> [] | Some e \<Rightarrow> [e])
      | ErrorResponse e \<Rightarrow> [e])"

definition Outcome_strings :: "Outcome \<Rightarrow> string list" where
  "Outcome_strings out = (case out of JSON code b \<Rightarrow> Body_strings b | Panic \<Rightarrow> [])"

text \<open>
  Two registry states with the same workspaces and the same events, whatever their
  secrets; two requests that differ at most in the values of the secrets of a create
  request; and an orchestrator whose answers do not depend on the values of the secrets
  it is given, for cluster states related by \<open>R\<close>.
\<close>

definition same_public :: "db \<Rightarrow> db \<Rightarrow> bool" where
  "same_public d d' =
     (workspaces d = workspaces d' \<and> workspace_events d = workspace_events d'
      \<and> events_seq d = events_seq d')"

definition Request_public :: "Request \<Rightarrow> Request" where
  "Request_public r =
     (case r of
        POST_workspaces i req \<Rightarrow>
          POST_workspaces i (req\<lparr>ReqSecrets := map (\<lambda>(k, v). (k, [])) (ReqSecrets req)\<rparr>)
      | _ \<Rightarrow> r)"

definition secret_independent :: "('c \<Rightarrow> 'c \<Rightarrow> bool) \<Rightarrow> 'c Orchestrator \<Rightarrow> bool" where
  "secret_independent R orch =
     (\<forall>ws c c'. R c c' \<longrightarrow>
        (\<forall>secs secs'. map WorkspaceID secs = map WorkspaceID secs' \<and> map Key secs = map Key secs' \<longrightarrow>
           fst (Orchestrator_DeployWorkspace orch ws secs c)
             = fst (Orchestrator_DeployWorkspace orch ws secs' c')
           \<and> R (snd (Orchestrator_DeployWorkspace orch ws secs c))
                (snd (Orchestrator_DeployWorkspace orch ws secs' c')))
        \<and> fst (Orchestrator_StopWorkspace orch ws c) = fst (Orchestrator_StopWorkspace orch ws c')
        \<and> R (snd (Orchestrator_StopWorkspace orch ws c)) (snd (Orchestrator_StopWorkspace orch ws c'))
        \<and> fst (Orchestrator_StartWorkspace orch ws c) = fst (Orchestrator_StartWorkspace orch ws c')
        \<and> R (snd (Orchestrator_StartWorkspace orch ws c)) (snd (Orchestrator_StartWorkspace orch ws c'))
        \<and> fst (Orchestrator_DeleteWorkspace orch ws c) = fst (Orchestrator_DeleteWorkspace orch ws c')
        \<and> R (snd (Orchestrator_DeleteWorkspace orch ws c)) (snd (Orchestrator_DeleteWorkspace orch ws c'))
        \<and> Orchestrator_GetWorkspaceStatus orch ws c = Orchestrator_GetWorkspaceStatus orch ws c')"

section \<open>Example values\<close>

text \<open>A request, a stored workspace and a registry that holds it, for the examples below.\<close>

definition demo_request :: CreateWorkspaceRequest where
  "demo_request =
     \<lparr>ReqName = ''demo'', ReqDockerImage = [], ReqDockerImageTag = [],
      ReqCPURequest = [], ReqMemoryRequest = [], ReqCPULimit = [], ReqMemoryLimit = [],
      ReqDataSize = [], ReqSrcSize = [], ReqGitUserName = [], ReqGitUserEmail = [],
      ReqSecrets = []\<rparr>"

definition demo_workspace :: Workspace where
  "demo_workspace =
     \<lparr>ID = ''a1b2c3d4'', Name = ''demo'', Status = StatusRunning,
      DockerImage = ''hld'', DockerImageTag = ''latest'',
      HelmReleaseName = ''hld-a1b2c3d4'', Namespace = ''workspace-a1b2c3d4'',
      IngressHost = ''workspace-a1b2c3d4.workspaces.local'',
      CPURequest = ''100m'', MemoryRequest = ''256Mi'', CPULimit = ''1'', MemoryLimit = ''1Gi'',
      DataSize = ''1Gi'', SrcSize = ''5Gi'',
      GitEnabled = False, GitUserName = [], GitUserEmail = [],
      CreatedAt = 1, UpdatedAt = 1\<rparr>"

definition demo_db :: db where
  "demo_db = \<lparr>workspaces = [demo_workspace], workspace_secrets = [], workspace_events = [],
              events_seq = 0\<rparr>"

definition demo_cluster :: cluster where
  "demo_cluster = \<lparr>releases = [(''workspace-a1b2c3d4'', ''hld-a1b2c3d4'')],
                   namespaces = [''workspace-a1b2c3d4'']\<rparr>"

text \<open>An orchestrator every operation of which fails with the given error.\<close>

definition FailingOrchestrator :: "error \<Rightarrow> unit Orchestrator" where
  "FailingOrchestrator err =
     \<lparr>Orchestrator_DeployWorkspace = (\<lambda>ws secrets c. (Some err, c)),
      Orchestrator_StopWorkspace = (\<lambda>ws c. (Some err, c)),
      Orchestrator_StartWorkspace = (\<lambda>ws c. (Some err, c)),
      Orchestrator_DeleteWorkspace = (\<lambda>ws c. (Some err, c)),
      Orchestrator_GetWorkspaceStatus = (\<lambda>ws c. (None, Some err))\<rparr>"

definition stopped_db :: db where
  "stopped_db = \<lparr>workspaces = [demo_workspace\<lparr>Status := StatusStopped\<rparr>], workspace_secrets = [],
                 workspace_events = [], events_seq = 0\<rparr>"

section \<open>What the registry operations and a create request do\<close>

text \<open>
  Storing a secret or an event leaves the workspace rows alone; an update of a workspace
  whose row is the last one and the only one of its id rewrites that row; a create
  request with a valid body and a fresh id appends one row and two events.
\<close>

lemma upsert_secret_public:
  "workspaces (snd (upsert_secret x d)) = workspaces d"
  "workspace_events (snd (upsert_secret x d)) = workspace_events d"
  "events_seq (snd (upsert_secret x d)) = events_seq d"
  by (simp_all add: upsert_secret_def)

lemma replace_secret_public:
  "workspaces (snd (replace_secret x d)) = workspaces d"
  "workspace_events (snd (replace_secret x d)) = workspace_events d"
  "events_seq (snd (replace_secret x d)) = events_seq d"
  by (simp_all add: replace_secret_def)

lemma fold_SetSecret1_public:
  "workspaces (fold (\<lambda>secret st. snd (Store_SetSecret SQLiteStore1 secret st)) xs d) = workspaces d"
  "workspace_events (fold (\<lambda>secret st. snd (Store_SetSecret SQLiteStore1 secret st)) xs d) = workspace_events d"
  "events_seq (fold (\<lambda>secret st. snd (Store_SetSecret SQLiteStore1 secret st)) xs d) = events_seq d"
  by (induction xs arbitrary: d; simp add: SQLiteStore1_def SQLiteStore1_SetSecret_def upsert_secret_public)+

lemma fold_SetSecret2_public:
  "workspaces (fold (\<lambda>secret st. snd (Store_SetSecret SQLiteStore2 secret st)) xs d) = workspaces d"
  "workspace_events (fold (\<lambda>secret st. snd (Store_SetSecret SQLiteStore2 secret st)) xs d) = workspace_events d"
  "events_seq (fold (\<lambda>secret st. snd (Store_SetSecret SQLiteStore2 secret st)) xs d) = events_seq d"
  by (induction xs arbitrary: d; simp add: SQLiteStore2_def SQLiteStore2_SetSecret_def replace_secret_public)+

lemma update_rows_fresh:
  "\<not> list_ex (\<lambda>w. ID w = i) rows \<Longrightarrow> map (\<lambda>r. if ID r = i then f r else r) rows = rows"
  by (induction rows) auto

lemma SQLiteStore2_LogEvent_ok:
  "has_workspace d (EventWorkspaceID e) \<Longrightarrow>
   snd (snd (Store_LogEvent SQLiteStore2 t e d)) =
     d\<lparr>workspace_events := workspace_events d @ [e\<lparr>EventID := events_seq d + 1, EventCreatedAt := t\<rparr>],
       events_seq := events_seq d + 1\<rparr>"
  by (simp add: SQLiteStore2_def SQLiteStore2_LogEvent_def Let_def insert_event_def)

lemma SQLiteStore1_LogEvent_ok:
  "has_workspace d (EventWorkspaceID e) \<Longrightarrow>
   snd (snd (Store_LogEvent SQLiteStore1 t e d)) =
     d\<lparr>workspace_events := workspace_events d @ [e\<lparr>EventID := events_seq d + 1, EventCreatedAt := t\<rparr>],
       events_seq := events_seq d + 1\<rparr>"
  by (simp add: SQLiteStore1_def SQLiteStore1_LogEvent_def Let_def insert_event_def)

lemma SQLiteStore2_UpdateWorkspace_last:
  "\<not> list_ex (\<lambda>w. ID w = ID W) rows \<Longrightarrow> UpdatedAt W = now \<Longrightarrow> workspaces s = rows @ [W] \<Longrightarrow>
   Store_UpdateWorkspace SQLiteStore2 now (W\<lparr>Status := st\<rparr>) s
     = (None, W\<lparr>Status := st\<rparr>, s\<lparr>workspaces := rows @ [W\<lparr>Status := st\<rparr>]\<rparr>)"
  by (simp add: SQLiteStore2_def SQLiteStore2_UpdateWorkspace_def Let_def update_rows_fresh)

lemma WorkspaceHandlers_CreateWorkspace_effect:
  assumes v: "api_ShouldBindJSON req = None" and f: "\<not> has_workspace d i"
   and W: "W = (WorkspaceHandlers_CreateWorkspace_ws i req)\<lparr>CreatedAt := now, UpdatedAt := now\<rparr>"
   and dep: "Orchestrator_DeployWorkspace orch W (Create_secrets i req) c = (r, c1)"
  shows "fst (WorkspaceHandlers_CreateWorkspace SQLiteStore2 orch now i req (d, c)) =
           (case r of Some err \<Rightarrow> JSON StatusInternalServerError (WorkspaceResponse None (Some (''deployment failed: '' @ err)))
                    | None \<Rightarrow> JSON StatusCreated (WorkspaceResponse (Some (ToDTO (W\<lparr>Status := StatusRunning\<rparr>))) None))"
    and "workspaces (fst (snd (WorkspaceHandlers_CreateWorkspace SQLiteStore2 orch now i req (d, c)))) =
           workspaces d @ [W\<lparr>Status := (case r of Some err \<Rightarrow> StatusError | None \<Rightarrow> StatusRunning)\<rparr>]"
    and "workspace_events (fst (snd (WorkspaceHandlers_CreateWorkspace SQLiteStore2 orch now i req (d, c)))) =
           workspace_events d @
            [\<lparr>EventID = events_seq d + 1, EventWorkspaceID = i, EventType = ''created'',
              Message = ''Workspace '' @ ReqName req @ '' created'', Metadata = [], EventCreatedAt = now\<rparr>,
             (case r of
                Some err \<Rightarrow> \<lparr>EventID = events_seq d + 2, EventWorkspaceID = i, EventType = ''error'',
                    Message = ''Deployment failed: '' @ err, Metadata = [], EventCreatedAt = now\<rparr>
              | None \<Rightarrow> \<lparr>EventID = events_seq d + 2, EventWorkspaceID = i, EventType = ''deployed'',
                    Message = ''Helm release installed'', Metadata = [], EventCreatedAt = now\<rparr>)]"
    and "events_seq (fst (snd (WorkspaceHandlers_CreateWorkspace SQLiteStore2 orch now i req (d, c)))) =
           events_seq d + 2"
    and "snd (snd (WorkspaceHandlers_CreateWorkspace SQLiteStore2 orch now i req (d, c))) = c1"
proof -
  have idW: "ID W = i" "Status W = StatusPending" "Name W = ReqName req" "UpdatedAt W = now"
    by (simp_all add: W WorkspaceHandlers_CreateWorkspace_ws_def)
  have cr: "Store_CreateWorkspace SQLiteStore2 now (WorkspaceHandlers_CreateWorkspace_ws i req) d
             = (None, W, d\<lparr>workspaces := workspaces d @ [W]\<rparr>)"
    using f by (simp add: SQLiteStore2_def SQLiteStore2_CreateWorkspace_def Let_def W
        WorkspaceHandlers_CreateWorkspace_ws_def StatusPending_def insert_workspace_def)
  define s2 where "s2 = fold (\<lambda>secret st. snd (Store_SetSecret SQLiteStore2 secret st)) (Create_secrets i req)
                          (d\<lparr>workspaces := workspaces d @ [W]\<rparr>)"
  have s2: "workspaces s2 = workspaces d @ [W]" "workspace_events s2 = workspace_events d" "events_seq s2 = events_seq d"
    by (simp_all add: s2_def fold_SetSecret2_public)
  have hw2: "has_workspace s2 i"
    by (simp add: has_workspace_def s2 idW)
  define ev1 where "ev1 = \<lparr>EventID = events_seq d + 1, EventWorkspaceID = i, EventType = ''created'',
              Message = ''Workspace '' @ ReqName req @ '' created'', Metadata = [], EventCreatedAt = now\<rparr>"
  define s3 where "s3 = s2\<lparr>workspace_events := workspace_events d @ [ev1], events_seq := events_seq d + 1\<rparr>"
  have l3: "snd (snd (Store_LogEvent SQLiteStore2 now
              \<lparr>EventID = 0, EventWorkspaceID = i, EventType = ''created'',
               Message = ''Workspace '' @ Name W @ '' created'', Metadata = [], EventCreatedAt = 0\<rparr> s2)) = s3"
    using hw2 by (simp add: SQLiteStore2_LogEvent_ok s2 s3_def ev1_def idW)
  have s3: "workspaces s3 = workspaces d @ [W]" "workspace_events s3 = workspace_events d @ [ev1]"
      "events_seq s3 = events_seq d + 1"
    by (simp_all add: s3_def s2)
  have fr: "\<not> list_ex (\<lambda>w. ID w = ID W) (workspaces d)"
    using f by (simp add: has_workspace_def idW)
  have up: "\<And>st. Store_UpdateWorkspace SQLiteStore2 now (W\<lparr>Status := st\<rparr>) s3
              = (None, W\<lparr>Status := st\<rparr>, s3\<lparr>workspaces := workspaces d @ [W\<lparr>Status := st\<rparr>]\<rparr>)"
    using SQLiteStore2_UpdateWorkspace_last [OF fr idW(4) s3(1)] by simp
  have hw4: "\<And>st. has_workspace (s3\<lparr>workspaces := workspaces d @ [W\<lparr>Status := st\<rparr>]\<rparr>) i"
    by (simp add: has_workspace_def idW)
  have body: "WorkspaceHandlers_CreateWorkspace SQLiteStore2 orch now i req (d, c) =
     (case r of
        Some err \<Rightarrow>
          (JSON StatusInternalServerError (WorkspaceResponse None (Some (''deployment failed: '' @ err))),
           snd (snd (Store_LogEvent SQLiteStore2 now
                 \<lparr>EventID = 0, EventWorkspaceID = i, EventType = ''error'',
                  Message = ''Deployment failed: '' @ err, Metadata = [], EventCreatedAt = 0\<rparr>
                 (s3\<lparr>workspaces := workspaces d @ [W\<lparr>Status := StatusError\<rparr>]\<rparr>))), c1)
      | None \<Rightarrow>
          (JSON StatusCreated (WorkspaceResponse (Some (ToDTO (W\<lparr>Status := StatusRunning\<rparr>))) None),
           snd (snd (Store_LogEvent SQLiteStore2 now
                 \<lparr>EventID = 0, EventWorkspaceID = i, EventType = ''deployed'',
                  Message = ''Helm release installed'', Metadata = [], EventCreatedAt = 0\<rparr>
                 (s3\<lparr>workspaces := workspaces d @ [W\<lparr>Status := StatusRunning\<rparr>]\<rparr>))), c1))"
    using v cr dep l3
    by (simp add: WorkspaceHandlers_CreateWorkspace_def Let_def s2_def [symmetric] up split: option.splits)
  show "fst (WorkspaceHandlers_CreateWorkspace SQLiteStore2 orch now i req (d, c)) =
           (case r of Some err \<Rightarrow> JSON StatusInternalServerError (WorkspaceResponse None (Some (''deployment failed: '' @ err)))
                    | None \<Rightarrow> JSON StatusCreated (WorkspaceResponse (Some (ToDTO (W\<lparr>Status := StatusRunning\<rparr>))) None))"
    by (simp add: body split: option.splits)
  show "workspaces (fst (snd (WorkspaceHandlers_CreateWorkspace SQLiteStore2 orch now i req (d, c)))) =
           workspaces d @ [W\<lparr>Status := (case r of Some err \<Rightarrow> StatusError | None \<Rightarrow> StatusRunning)\<rparr>]"
    by (simp add: body SQLiteStore2_LogEvent_ok hw4 split: option.splits)
  show "workspace_events (fst (snd (WorkspaceHandlers_CreateWorkspace SQLiteStore2 orch now i req (d, c)))) =
           workspace_events d @
            [\<lparr>EventID = events_seq d + 1, EventWorkspaceID = i, EventType = ''created'',
              Message = ''Workspace '' @ ReqName req @ '' created'', Metadata = [], EventCreatedAt = now\<rparr>,
             (case r of
                Some err \<Rightarrow> \<lparr>EventID = events_seq d + 2, EventWorkspaceID = i, EventType = ''error'',
                    Message = ''Deployment failed: '' @ err, Metadata = [], EventCreatedAt = now\<rparr>
              | None \<Rightarrow> \<lparr>EventID = events_seq d + 2, EventWorkspaceID = i, EventType = ''deployed'',
                    Message = ''Helm release installed'', Metadata = [], EventCreatedAt = now\<rparr>)]"
    by (simp add: body SQLiteStore2_LogEvent_ok hw4 s3 ev1_def split: option.splits)
  show "events_seq (fst (snd (WorkspaceHandlers_CreateWorkspace SQLiteStore2 orch now i req (d, c)))) =
           events_seq d + 2"
    by (simp add: body SQLiteStore2_LogEvent_ok hw4 s3 split: option.splits)
  show "snd (snd (WorkspaceHandlers_CreateWorkspace SQLiteStore2 orch now i req (d, c))) = c1"
    by (simp add: body split: option.splits)
qed

lemma find_append_fresh:
  "\<not> list_ex (\<lambda>w. ID w = ID W) rows \<Longrightarrow> find (\<lambda>w. ID w = ID W) (rows @ [W]) = Some W"
  by (induction rows) auto

lemma select_workspace_last:
  "\<not> list_ex (\<lambda>w. ID w = ID W) rows \<Longrightarrow> workspaces s = rows @ [W] \<Longrightarrow> select_workspace s (ID W) = Some W"
  by (simp add: select_workspace_def find_append_fresh)

lemma SQLiteStore1_UpdateWorkspace_last:
  "\<not> list_ex (\<lambda>w. ID w = ID W) rows \<Longrightarrow> workspaces s = rows @ [W] \<Longrightarrow>
   Store_UpdateWorkspace SQLiteStore1 now (W\<lparr>Status := st\<rparr>) s
     = (None, W\<lparr>Status := st\<rparr>, s\<lparr>workspaces := rows @ [W\<lparr>Status := st, UpdatedAt := now\<rparr>]\<rparr>)"
  by (simp add: SQLiteStore1_def SQLiteStore1_UpdateWorkspace_def Let_def update_rows_fresh)

lemma WorkspaceHandler_Create_effect:
  assumes v: "ShouldBindJSON req = None" and f: "\<not> has_workspace d i"
   and W: "W = (WorkspaceHandler_Create_ws i req)\<lparr>CreatedAt := now, UpdatedAt := now\<rparr>"
  shows "\<exists>s3. WorkspaceHandler_Create SQLiteStore1 orch now i req d =
           (JSON StatusCreated (WorkspaceResponse (Some (workspaceToDTO W)) None),
            (if orch = None then None else Some (W, Create_secrets i req)), s3)
          \<and> workspaces s3 = workspaces d @ [W]
          \<and> workspace_events s3 = workspace_events d @
               [\<lparr>EventID = events_seq d + 1, EventWorkspaceID = i, EventType = ''created'',
                 Message = ''Workspace '' @ [CHR 0x27] @ ReqName req @ [CHR 0x27] @ '' created'',
                 Metadata = [], EventCreatedAt = now\<rparr>]
          \<and> events_seq s3 = events_seq d + 1"
proof -
  have idW: "ID W = i"
    by (simp add: W WorkspaceHandler_Create_ws_def Let_def)
  have cr: "Store_CreateWorkspace SQLiteStore1 now (WorkspaceHandler_Create_ws i req) d
             = (None, WorkspaceHandler_Create_ws i req, d\<lparr>workspaces := workspaces d @ [W]\<rparr>)"
    using f by (simp add: SQLiteStore1_def SQLiteStore1_CreateWorkspace_def W insert_workspace_def
        WorkspaceHandler_Create_ws_def Let_def)
  define s2 where "s2 = fold (\<lambda>secret st. snd (Store_SetSecret SQLiteStore1 secret st)) (Create_secrets i req)
                          (d\<lparr>workspaces := workspaces d @ [W]\<rparr>)"
  have s2: "workspaces s2 = workspaces d @ [W]" "workspace_events s2 = workspace_events d" "events_seq s2 = events_seq d"
    by (simp_all add: s2_def fold_SetSecret1_public)
  have hw2: "has_workspace s2 i"
    by (simp add: has_workspace_def s2 idW)
  define ev1 where "ev1 = \<lparr>EventID = events_seq d + 1, EventWorkspaceID = i, EventType = ''created'',
              Message = ''Workspace '' @ [CHR 0x27] @ ReqName req @ [CHR 0x27] @ '' created'',
              Metadata = [], EventCreatedAt = now\<rparr>"
  define s3 where "s3 = s2\<lparr>workspace_events := workspace_events d @ [ev1], events_seq := events_seq d + 1\<rparr>"
  have l3: "snd (snd (Store_LogEvent SQLiteStore1 now
              \<lparr>EventID = 0, EventWorkspaceID = i, EventType = ''created'',
               Message = ''Workspace '' @ [CHR 0x27] @ ReqName req @ [CHR 0x27] @ '' created'',
               Metadata = [], EventCreatedAt = 0\<rparr> s2)) = s3"
    using hw2 by (simp add: SQLiteStore1_LogEvent_ok s2 s3_def ev1_def)
  have s3: "workspaces s3 = workspaces d @ [W]" "workspace_events s3 = workspace_events d @ [ev1]"
      "events_seq s3 = events_seq d + 1"
    by (simp_all add: s3_def s2)
  have fr: "\<not> list_ex (\<lambda>w. ID w = ID W) (workspaces d)"
    using f by (simp add: has_workspace_def idW)
  have get: "Store_GetWorkspace SQLiteStore1 i s3 = (Some W, None)"
    using select_workspace_last [OF fr s3(1)]
    by (simp add: SQLiteStore1_def SQLiteStore1_GetWorkspace_def idW)
  have "WorkspaceHandler_Create SQLiteStore1 orch now i req d =
           (JSON StatusCreated (WorkspaceResponse (Some (workspaceToDTO W)) None),
            (if orch = None then None else Some (W, Create_secrets i req)), s3)"
    using v cr l3 get
    by (simp add: WorkspaceHandler_Create_def Let_def s2_def [symmetric])
  then show ?thesis
    using s3 by (simp add: ev1_def)
qed

lemma WorkspaceHandler_Create_deploy_effect:
  assumes fr: "\<not> list_ex (\<lambda>w. ID w = ID W) rows" and ws: "workspaces s = rows @ [W]"
    and dep: "Orchestrator_DeployWorkspace orc W secrets c = (r, c1)"
  shows "workspaces (fst (WorkspaceHandler_Create_deploy SQLiteStore1 orc now (ID W) W secrets (s, c)))
           = rows @ [W\<lparr>Status := (case r of Some err \<Rightarrow> StatusError | None \<Rightarrow> StatusRunning), UpdatedAt := now\<rparr>]"
   and "workspace_events (fst (WorkspaceHandler_Create_deploy SQLiteStore1 orc now (ID W) W secrets (s, c)))
           = workspace_events s @
             [(case r of
                Some err \<Rightarrow> \<lparr>EventID = events_seq s + 1, EventWorkspaceID = ID W, EventType = ''error'',
                    Message = ''Deployment failed: '' @ err, Metadata = [], EventCreatedAt = now\<rparr>
              | None \<Rightarrow> \<lparr>EventID = events_seq s + 1, EventWorkspaceID = ID W, EventType = ''started'',
                    Message = ''Workspace deployed successfully'', Metadata = [], EventCreatedAt = now\<rparr>)]"
   and "snd (WorkspaceHandler_Create_deploy SQLiteStore1 orc now (ID W) W secrets (s, c)) = c1"
   and "events_seq (fst (WorkspaceHandler_Create_deploy SQLiteStore1 orc now (ID W) W secrets (s, c)))
           = events_seq s + 1"
proof -
  have up: "\<And>st. Store_UpdateWorkspace SQLiteStore1 now (W\<lparr>Status := st\<rparr>) s
              = (None, W\<lparr>Status := st\<rparr>, s\<lparr>workspaces := rows @ [W\<lparr>Status := st, UpdatedAt := now\<rparr>]\<rparr>)"
    using SQLiteStore1_UpdateWorkspace_last [OF fr ws] by simp
  have hw: "\<And>st. has_workspace (s\<lparr>workspaces := rows @ [W\<lparr>Status := st, UpdatedAt := now\<rparr>]\<rparr>) (ID W)"
    by (simp add: has_workspace_def)
  show "workspaces (fst (WorkspaceHandler_Create_deploy SQLiteStore1 orc now (ID W) W secrets (s, c)))
           = rows @ [W\<lparr>Status := (case r of Some err \<Rightarrow> StatusError | None \<Rightarrow> StatusRunning), UpdatedAt := now\<rparr>]"
    using dep by (simp add: WorkspaceHandler_Create_deploy_def Let_def up SQLiteStore1_LogEvent_ok hw split: option.splits)
  show "workspace_events (fst (WorkspaceHandler_Create_deploy SQLiteStore1 orc now (ID W) W secrets (s, c)))
           = workspace_events s @
             [(case r of
                Some err \<Rightarrow> \<lparr>EventID = events_seq s + 1, EventWorkspaceID = ID W, EventType = ''error'',
                    Message = ''Deployment failed: '' @ err, Metadata = [], EventCreatedAt = now\<rparr>
              | None \<Rightarrow> \<lparr>EventID = events_seq s + 1, EventWorkspaceID = ID W, EventType = ''started'',
                    Message = ''Workspace deployed successfully'', Metadata = [], EventCreatedAt = now\<rparr>)]"
    using dep by (simp add: WorkspaceHandler_Create_deploy_def Let_def up SQLiteStore1_LogEvent_ok hw split: option.splits)
  show "snd (WorkspaceHandler_Create_deploy SQLiteStore1 orc now (ID W) W secrets (s, c)) = c1"
    using dep by (simp add: WorkspaceHandler_Create_deploy_def Let_def split: option.splits)
  show "events_seq (fst (WorkspaceHandler_Create_deploy SQLiteStore1 orc now (ID W) W secrets (s, c)))
           = events_seq s + 1"
    using dep by (simp add: WorkspaceHandler_Create_deploy_def Let_def up SQLiteStore1_LogEvent_ok hw split: option.splits)
qed

lemma WorkspaceHandler_Create_request_effect_nil:
  assumes v: "ShouldBindJSON req = None" and f: "\<not> has_workspace d i"
   and W: "W = (WorkspaceHandler_Create_ws i req)\<lparr>CreatedAt := now, UpdatedAt := now\<rparr>"
  shows "fst (WorkspaceHandler_Create_request SQLiteStore1 None now i req (d, c :: 'c))
           = JSON StatusCreated (WorkspaceResponse (Some (workspaceToDTO W)) None)"
    and "workspaces (fst (snd (WorkspaceHandler_Create_request SQLiteStore1 None now i req (d, c))))
           = workspaces d @ [W]"
    and "workspace_events (fst (snd (WorkspaceHandler_Create_request SQLiteStore1 None now i req (d, c))))
           = workspace_events d @
               [\<lparr>EventID = events_seq d + 1, EventWorkspaceID = i, EventType = ''created'',
                 Message = ''Workspace '' @ [CHR 0x27] @ ReqName req @ [CHR 0x27] @ '' created'',
                 Metadata = [], EventCreatedAt = now\<rparr>]"
    and "events_seq (fst (snd (WorkspaceHandler_Create_request SQLiteStore1 None now i req (d, c))))
           = events_seq d + 1"
    and "snd (snd (WorkspaceHandler_Create_request SQLiteStore1 None now i req (d, c))) = c"
proof -
  from WorkspaceHandler_Create_effect [OF v f W, of "None :: 'c Orchestrator option"] obtain s3 where
    a: "WorkspaceHandler_Create SQLiteStore1 (None :: 'c Orchestrator option) now i req d =
           (JSON StatusCreated (WorkspaceResponse (Some (workspaceToDTO W)) None), None, s3)"
    and b: "workspaces s3 = workspaces d @ [W]"
    and e: "workspace_events s3 = workspace_events d @
               [\<lparr>EventID = events_seq d + 1, EventWorkspaceID = i, EventType = ''created'',
                 Message = ''Workspace '' @ [CHR 0x27] @ ReqName req @ [CHR 0x27] @ '' created'',
                 Metadata = [], EventCreatedAt = now\<rparr>]"
    and q: "events_seq s3 = events_seq d + 1"
    by auto
  show "fst (WorkspaceHandler_Create_request SQLiteStore1 None now i req (d, c))
           = JSON StatusCreated (WorkspaceResponse (Some (workspaceToDTO W)) None)"
    by (simp add: WorkspaceHandler_Create_request_def a)
  show "workspaces (fst (snd (WorkspaceHandler_Create_request SQLiteStore1 None now i req (d, c))))
           = workspaces d @ [W]"
    by (simp add: WorkspaceHandler_Create_request_def a b)
  show "workspace_events (fst (snd (WorkspaceHandler_Create_request SQLiteStore1 None now i req (d, c))))
           = workspace_events d @
               [\<lparr>EventID = events_seq d + 1, EventWorkspaceID = i, EventType = ''created'',
                 Message = ''Workspace '' @ [CHR 0x27] @ ReqName req @ [CHR 0x27] @ '' created'',
                 Metadata = [], EventCreatedAt = now\<rparr>]"
    by (simp add: WorkspaceHandler_Create_request_def a e)
  show "events_seq (fst (snd (WorkspaceHandler_Create_request SQLiteStore1 None now i req (d, c))))
           = events_seq d + 1"
    by (simp add: WorkspaceHandler_Create_request_def a q)
  show "snd (snd (WorkspaceHandler_Create_request SQLiteStore1 None now i req (d, c))) = c"
    by (simp add: WorkspaceHandler_Create_request_def a)
qed

lemma WorkspaceHandler_Create_request_effect:
  assumes v: "ShouldBindJSON req = None" and f: "\<not> has_workspace d i"
   and W: "W = (WorkspaceHandler_Create_ws i req)\<lparr>CreatedAt := now, UpdatedAt := now\<rparr>"
   and dep: "Orchestrator_DeployWorkspace orc W (Create_secrets i req) c = (r, c1)"
  shows "fst (WorkspaceHandler_Create_request SQLiteStore1 (Some orc) now i req (d, c))
           = JSON StatusCreated (WorkspaceResponse (Some (workspaceToDTO W)) None)"
    and "workspaces (fst (snd (WorkspaceHandler_Create_request SQLiteStore1 (Some orc) now i req (d, c))))
           = workspaces d @ [W\<lparr>Status := (case r of Some err \<Rightarrow> StatusError | None \<Rightarrow> StatusRunning)\<rparr>]"
    and "workspace_events (fst (snd (WorkspaceHandler_Create_request SQLiteStore1 (Some orc) now i req (d, c))))
           = workspace_events d @
               [\<lparr>EventID = events_seq d + 1, EventWorkspaceID = i, EventType = ''created'',
                 Message = ''Workspace '' @ [CHR 0x27] @ ReqName req @ [CHR 0x27] @ '' created'',
                 Metadata = [], EventCreatedAt = now\<rparr>,
                (case r of
                   Some err \<Rightarrow> \<lparr>EventID = events_seq d + 2, EventWorkspaceID = i, EventType = ''error'',
                       Message = ''Deployment failed: '' @ err, Metadata = [], EventCreatedAt = now\<rparr>
                 | None \<Rightarrow> \<lparr>EventID = events_seq d + 2, EventWorkspaceID = i, EventType = ''started'',
                       Message = ''Workspace deployed successfully'', Metadata = [], EventCreatedAt = now\<rparr>)]"
    and "events_seq (fst (snd (WorkspaceHandler_Create_request SQLiteStore1 (Some orc) now i req (d, c))))
           = events_seq d + 2"
    and "snd (snd (WorkspaceHandler_Create_request SQLiteStore1 (Some orc) now i req (d, c))) = c1"
proof -
  have idW: "ID W = i" "UpdatedAt W = now"
    by (simp_all add: W WorkspaceHandler_Create_ws_def Let_def)
  from WorkspaceHandler_Create_effect [OF v f W, of "Some orc"] obtain s3 where
    a: "WorkspaceHandler_Create SQLiteStore1 (Some orc) now i req d =
           (JSON StatusCreated (WorkspaceResponse (Some (workspaceToDTO W)) None),
            Some (W, Create_secrets i req), s3)"
    and b: "workspaces s3 = workspaces d @ [W]"
    and e: "workspace_events s3 = workspace_events d @
               [\<lparr>EventID = events_seq d + 1, EventWorkspaceID = i, EventType = ''created'',
                 Message = ''Workspace '' @ [CHR 0x27] @ ReqName req @ [CHR 0x27] @ '' created'',
                 Metadata = [], EventCreatedAt = now\<rparr>]"
    and q: "events_seq s3 = events_seq d + 1"
    by auto
  have fr: "\<not> list_ex (\<lambda>w. ID w = ID W) (workspaces d)"
    using f by (simp add: has_workspace_def idW)
  note D = WorkspaceHandler_Create_deploy_effect [OF fr b dep, of now, unfolded idW]
  have same: "\<And>st. W\<lparr>Status := st, UpdatedAt := now\<rparr> = W\<lparr>Status := st\<rparr>"
    using idW(2) by (cases W) simp
  have unf: "WorkspaceHandler_Create_request SQLiteStore1 (Some orc) now i req (d, c) =
          (JSON StatusCreated (WorkspaceResponse (Some (workspaceToDTO W)) None),
           WorkspaceHandler_Create_deploy SQLiteStore1 orc now i W (Create_secrets i req) (s3, c))"
    by (simp add: WorkspaceHandler_Create_request_def a split: prod.splits)
  show "fst (WorkspaceHandler_Create_request SQLiteStore1 (Some orc) now i req (d, c))
           = JSON StatusCreated (WorkspaceResponse (Some (workspaceToDTO W)) None)"
    by (simp add: unf)
  show "workspaces (fst (snd (WorkspaceHandler_Create_request SQLiteStore1 (Some orc) now i req (d, c))))
           = workspaces d @ [W\<lparr>Status := (case r of Some err \<Rightarrow> StatusError | None \<Rightarrow> StatusRunning)\<rparr>]"
    by (simp add: unf D(1) same)
  show "workspace_events (fst (snd (WorkspaceHandler_Create_request SQLiteStore1 (Some orc) now i req (d, c))))
           = workspace_events d @
               [\<lparr>EventID = events_seq d + 1, EventWorkspaceID = i, EventType = ''created'',
                 Message = ''Workspace '' @ [CHR 0x27] @ ReqName req @ [CHR 0x27] @ '' created'',
                 Metadata = [], EventCreatedAt = now\<rparr>,
                (case r of
                   Some err \<Rightarrow> \<lparr>EventID = events_seq d + 2, EventWorkspaceID = i, EventType = ''error'',
                       Message = ''Deployment failed: '' @ err, Metadata = [], EventCreatedAt = now\<rparr>
                 | None \<Rightarrow> \<lparr>EventID = events_seq d + 2, EventWorkspaceID = i, EventType = ''started'',
                       Message = ''Workspace deployed successfully'', Metadata = [], EventCreatedAt = now\<rparr>)]"
    by (simp add: unf D(2) e q split: option.splits)
  show "events_seq (fst (snd (WorkspaceHandler_Create_request SQLiteStore1 (Some orc) now i req (d, c))))
           = events_seq d + 2"
    by (simp add: unf D(4) q)
  show "snd (snd (WorkspaceHandler_Create_request SQLiteStore1 (Some orc) now i req (d, c))) = c1"
    by (simp add: unf D(3))
qed

lemma select_appended:
  "\<not> has_workspace d i \<Longrightarrow> ID w = i \<Longrightarrow> workspaces d' = workspaces d @ [w] \<Longrightarrow>
   select_workspace d' i = Some w"
  using select_workspace_last [of w "workspaces d" d'] by (simp add: has_workspace_def)

section \<open>Helm release name and namespace of the stored workspaces\<close>

text \<open>
  Every operation of the registry keeps \<open>names_derived\<close>: the first revision of
  \<^verbatim>\<open>UpdateWorkspace\<close> whatever it is given, the second one when the workspace it is
  given has derived names itself, as one read from the registry has. So does every
  handler.
\<close>

lemma names_derived_cong: "workspaces d' = workspaces d \<Longrightarrow> names_derived rp np d' = names_derived rp np d"
  by (simp add: names_derived_def)

lemma LogEvent_workspaces:
  "workspaces (snd (snd (Store_LogEvent SQLiteStore1 t e d))) = workspaces d"
  "workspaces (snd (snd (Store_LogEvent SQLiteStore2 t e d))) = workspaces d"
  by (simp_all add: SQLiteStore1_def SQLiteStore1_LogEvent_def SQLiteStore2_def SQLiteStore2_LogEvent_def
      insert_event_def Let_def)

lemma DeleteSecrets_workspaces:
  "workspaces (snd (Store_DeleteSecrets SQLiteStore1 i d)) = workspaces d"
  "workspaces (snd (Store_DeleteSecrets SQLiteStore2 i d)) = workspaces d"
  by (simp_all add: SQLiteStore1_def SQLiteStore1_DeleteSecrets_def SQLiteStore2_def SQLiteStore2_DeleteSecrets_def)

lemma names_derived_DeleteWorkspace:
  "names_derived rp np d \<Longrightarrow> names_derived rp np (snd (Store_DeleteWorkspace SQLiteStore1 i d))"
  "names_derived rp np d \<Longrightarrow> names_derived rp np (snd (Store_DeleteWorkspace SQLiteStore2 i d))"
  by (simp_all add: names_derived_def SQLiteStore1_def SQLiteStore1_DeleteWorkspace_def SQLiteStore2_def
      SQLiteStore2_DeleteWorkspace_def delete_workspace_cascade_def list_all_iff)

lemma names_derived_CreateWorkspace:
  "names_derived rp np d \<Longrightarrow> HelmReleaseName ws = rp @ ID ws \<Longrightarrow> Namespace ws = np @ ID ws \<Longrightarrow>
   names_derived rp np (snd (snd (Store_CreateWorkspace SQLiteStore1 t ws d)))"
  "names_derived rp np d \<Longrightarrow> HelmReleaseName ws = rp @ ID ws \<Longrightarrow> Namespace ws = np @ ID ws \<Longrightarrow>
   names_derived rp np (snd (snd (Store_CreateWorkspace SQLiteStore2 t ws d)))"
  by (simp_all add: names_derived_def SQLiteStore1_def SQLiteStore1_CreateWorkspace_def SQLiteStore2_def
      SQLiteStore2_CreateWorkspace_def insert_workspace_def Let_def)

lemma names_derived_UpdateWorkspace1:
  "names_derived rp np d \<Longrightarrow> names_derived rp np (snd (snd (Store_UpdateWorkspace SQLiteStore1 t ws d)))"
  by (auto simp add: names_derived_def SQLiteStore1_def SQLiteStore1_UpdateWorkspace_def list_all_iff)

lemma names_derived_UpdateWorkspace2:
  "names_derived rp np d \<Longrightarrow> HelmReleaseName ws = rp @ ID ws \<Longrightarrow> Namespace ws = np @ ID ws \<Longrightarrow>
   names_derived rp np (snd (snd (Store_UpdateWorkspace SQLiteStore2 t ws d)))"
  by (auto simp add: names_derived_def SQLiteStore2_def SQLiteStore2_UpdateWorkspace_def list_all_iff Let_def)

lemma names_derived_GetWorkspace:
  "names_derived rp np d \<Longrightarrow> fst (Store_GetWorkspace SQLiteStore2 i d) = Some ws \<Longrightarrow>
   HelmReleaseName ws = rp @ ID ws \<and> Namespace ws = np @ ID ws"
  by (auto simp add: names_derived_def SQLiteStore2_def SQLiteStore2_GetWorkspace_def select_workspace_def
      list_all_iff find_Some_iff split: option.splits)

lemma names_derived_SetSecret1: "names_derived rp np (fold (\<lambda>secret st. snd (Store_SetSecret SQLiteStore1 secret st)) xs d) = names_derived rp np d"
  by (simp add: names_derived_def fold_SetSecret1_public)
lemma names_derived_SetSecret2: "names_derived rp np (fold (\<lambda>secret st. snd (Store_SetSecret SQLiteStore2 secret st)) xs d) = names_derived rp np d"
  by (simp add: names_derived_def fold_SetSecret2_public)
lemma names_derived_LogEvent:
  "names_derived rp np (snd (snd (Store_LogEvent SQLiteStore1 t e d))) = names_derived rp np d"
  "names_derived rp np (snd (snd (Store_LogEvent SQLiteStore2 t e d))) = names_derived rp np d"
  by (simp_all add: names_derived_def LogEvent_workspaces)
lemma names_derived_DeleteSecrets:
  "names_derived rp np (snd (Store_DeleteSecrets SQLiteStore1 i d)) = names_derived rp np d"
  "names_derived rp np (snd (Store_DeleteSecrets SQLiteStore2 i d)) = names_derived rp np d"
  by (simp_all add: names_derived_def DeleteSecrets_workspaces)

lemmas names_derived_simps = names_derived_SetSecret1 names_derived_SetSecret2 names_derived_LogEvent names_derived_DeleteSecrets names_derived_DeleteWorkspace names_derived_CreateWorkspace names_derived_UpdateWorkspace1 names_derived_UpdateWorkspace2

lemma WorkspaceHandlers_StartWorkspace_names:
  assumes "names_derived rp np d"
  shows "names_derived rp np (fst (snd (WorkspaceHandlers_StartWorkspace SQLiteStore2 orch now i (d, c))))"
  using assms names_derived_GetWorkspace [of rp np d i]
  by (auto simp add: WorkspaceHandlers_StartWorkspace_def Let_def case_prod_beta names_derived_simps split: option.splits
      intro!: names_derived_UpdateWorkspace2)

lemma WorkspaceHandlers_StopWorkspace_names:
  assumes "names_derived rp np d"
  shows "names_derived rp np (fst (snd (WorkspaceHandlers_StopWorkspace SQLiteStore2 orch now i (d, c))))"
  using assms names_derived_GetWorkspace [of rp np d i]
  by (auto simp add: WorkspaceHandlers_StopWorkspace_def Let_def case_prod_beta names_derived_simps split: option.splits
      intro!: names_derived_UpdateWorkspace2)

lemma WorkspaceHandlers_DeleteWorkspace_names:
  assumes "names_derived rp np d"
  shows "names_derived rp np (fst (snd (WorkspaceHandlers_DeleteWorkspace SQLiteStore2 orch i (d, c))))"
  using assms
  by (auto simp add: WorkspaceHandlers_DeleteWorkspace_def Let_def case_prod_beta names_derived_simps split: option.splits
      intro!: names_derived_DeleteWorkspace)

lemma WorkspaceHandlers_reads:
  "fst (snd (WorkspaceHandlers_ListWorkspaces SQLiteStore2 orch (d, c))) = d"
  "fst (snd (WorkspaceHandlers_GetWorkspace SQLiteStore2 orch i (d, c))) = d"
  "fst (snd (WorkspaceHandlers_GetEvents SQLiteStore2 orch i l (d, c))) = d"
  by (simp_all add: WorkspaceHandlers_ListWorkspaces_def WorkspaceHandlers_GetWorkspace_def
      WorkspaceHandlers_GetEvents_def case_prod_beta split: option.splits)

lemma WorkspaceHandlers_CreateWorkspace_ws_stored:
  "HelmReleaseName (fst (snd (Store_CreateWorkspace SQLiteStore2 now (WorkspaceHandlers_CreateWorkspace_ws i req) d))) = ''hld-'' @ i"
  "Namespace (fst (snd (Store_CreateWorkspace SQLiteStore2 now (WorkspaceHandlers_CreateWorkspace_ws i req) d))) = ''workspace-'' @ i"
  "ID (fst (snd (Store_CreateWorkspace SQLiteStore2 now (WorkspaceHandlers_CreateWorkspace_ws i req) d))) = i"
  by (simp_all add: SQLiteStore2_def SQLiteStore2_CreateWorkspace_def Let_def WorkspaceHandlers_CreateWorkspace_ws_def
      case_prod_beta)

lemma WorkspaceHandlers_CreateWorkspace_ws_names:
  "HelmReleaseName (WorkspaceHandlers_CreateWorkspace_ws i req) = ''hld-'' @ ID (WorkspaceHandlers_CreateWorkspace_ws i req)"
  "Namespace (WorkspaceHandlers_CreateWorkspace_ws i req) = ''workspace-'' @ ID (WorkspaceHandlers_CreateWorkspace_ws i req)"
  by (simp_all add: WorkspaceHandlers_CreateWorkspace_ws_def)

lemma WorkspaceHandlers_CreateWorkspace_names:
  assumes "names_derived ''hld-'' ''workspace-'' d"
  shows "names_derived ''hld-'' ''workspace-'' (fst (snd (WorkspaceHandlers_CreateWorkspace SQLiteStore2 orch now i req (d, c))))"
  using assms
  by (auto simp add: WorkspaceHandlers_CreateWorkspace_def Let_def case_prod_beta names_derived_simps WorkspaceHandlers_CreateWorkspace_ws_stored
      WorkspaceHandlers_CreateWorkspace_ws_names split: option.splits
      intro!: names_derived_UpdateWorkspace2 names_derived_CreateWorkspace)

lemma main_routes_names:
  assumes "names_derived ''hld-'' ''workspace-'' d"
  shows "names_derived ''hld-'' ''workspace-'' (fst (snd (main_routes SQLiteStore2 orch now r (d, c))))"
  using assms
  by (cases r) (simp_all add: main_routes_def WorkspaceHandlers_reads WorkspaceHandlers_CreateWorkspace_names WorkspaceHandlers_StartWorkspace_names WorkspaceHandlers_StopWorkspace_names WorkspaceHandlers_DeleteWorkspace_names)

lemma WorkspaceHandler_Start_names:
  assumes "names_derived rp np d"
  shows "names_derived rp np (fst (snd (WorkspaceHandler_Start SQLiteStore1 orchA now i (d, c))))"
  using assms
  by (auto simp add: WorkspaceHandler_Start_def Let_def case_prod_beta names_derived_simps split: option.splits
      intro!: names_derived_UpdateWorkspace1)

lemma WorkspaceHandler_Stop_names:
  assumes "names_derived rp np d"
  shows "names_derived rp np (fst (snd (WorkspaceHandler_Stop SQLiteStore1 orchA now i (d, c))))"
  using assms
  by (auto simp add: WorkspaceHandler_Stop_def Let_def case_prod_beta names_derived_simps split: option.splits
      intro!: names_derived_UpdateWorkspace1)

lemma WorkspaceHandler_Delete_names:
  assumes "names_derived rp np d"
  shows "names_derived rp np (fst (snd (WorkspaceHandler_Delete SQLiteStore1 orchA i (d, c))))"
  using assms
  by (auto simp add: WorkspaceHandler_Delete_def Let_def case_prod_beta names_derived_simps split: option.splits
      intro!: names_derived_DeleteWorkspace)

lemma WorkspaceHandler_reads:
  "fst (snd (WorkspaceHandler_List SQLiteStore1 orchA (d, c))) = d"
  "fst (snd (WorkspaceHandler_Get SQLiteStore1 orchA i (d, c))) = d"
  "fst (snd (WorkspaceHandler_Events SQLiteStore1 orchA i l (d, c))) = d"
  by (simp_all add: WorkspaceHandler_List_def WorkspaceHandler_Get_def
      WorkspaceHandler_Events_def case_prod_beta Let_def split: option.splits)

lemma WorkspaceHandler_Create_ws_names:
  "HelmReleaseName (WorkspaceHandler_Create_ws i req) = ''ws-'' @ ID (WorkspaceHandler_Create_ws i req)"
  "Namespace (WorkspaceHandler_Create_ws i req) = ''ws-'' @ ID (WorkspaceHandler_Create_ws i req)"
  by (simp_all add: WorkspaceHandler_Create_ws_def Let_def)

lemma WorkspaceHandler_Create_names:
  assumes "names_derived ''ws-'' ''ws-'' d"
  shows "names_derived ''ws-'' ''ws-'' (snd (snd (WorkspaceHandler_Create SQLiteStore1 orchA now i req d)))"
  using assms
  by (auto simp add: WorkspaceHandler_Create_def Let_def case_prod_beta names_derived_simps WorkspaceHandler_Create_ws_names
      split: option.splits intro!: names_derived_CreateWorkspace)

lemma WorkspaceHandler_Create_deploy_names:
  assumes "names_derived rp np s"
  shows "names_derived rp np (fst (WorkspaceHandler_Create_deploy SQLiteStore1 orc now j ws secrets (s, c)))"
  using assms
  by (auto simp add: WorkspaceHandler_Create_deploy_def Let_def case_prod_beta names_derived_simps split: option.splits
      intro!: names_derived_UpdateWorkspace1)

lemma WorkspaceHandler_Create_request_names:
  assumes "names_derived ''ws-'' ''ws-'' d"
  shows "names_derived ''ws-'' ''ws-'' (fst (snd (WorkspaceHandler_Create_request SQLiteStore1 orchA now i req (d, c))))"
  using WorkspaceHandler_Create_names [OF assms, of orchA now i req]
  by (auto simp add: WorkspaceHandler_Create_request_def case_prod_beta split: option.splits
      intro!: WorkspaceHandler_Create_deploy_names)

lemma NewRouter_names:
  assumes "names_derived ''ws-'' ''ws-'' d"
  shows "names_derived ''ws-'' ''ws-'' (fst (snd (NewRouter SQLiteStore1 orchA now r (d, c))))"
  using assms
  by (cases r) (simp_all add: NewRouter_def WorkspaceHandler_reads WorkspaceHandler_Create_request_names WorkspaceHandler_Start_names WorkspaceHandler_Stop_names WorkspaceHandler_Delete_names)

lemma WorkspaceHandlers_CreateWorkspace_stores_names:
  assumes v: "api_ShouldBindJSON req = None" and f: "\<not> has_workspace d i"
  shows "map_option (\<lambda>w. (HelmReleaseName w, Namespace w)) (select_workspace (fst (snd (WorkspaceHandlers_CreateWorkspace SQLiteStore2 orch now i req (d, c)))) i)
           = Some (''hld-'' @ i, ''workspace-'' @ i)"
proof -
  define W where "W = (WorkspaceHandlers_CreateWorkspace_ws i req)\<lparr>CreatedAt := now, UpdatedAt := now\<rparr>"
  obtain r c1 where dep: "Orchestrator_DeployWorkspace orch W (Create_secrets i req) c = (r, c1)"
    by (cases "Orchestrator_DeployWorkspace orch W (Create_secrets i req) c")
  have g: "\<And>st. ID (W\<lparr>Status := st\<rparr>) = i"
     "\<And>st. HelmReleaseName (W\<lparr>Status := st\<rparr>) = ''hld-'' @ i"
     "\<And>st. Namespace (W\<lparr>Status := st\<rparr>) = ''workspace-'' @ i"
    by (simp_all add: W_def WorkspaceHandlers_CreateWorkspace_ws_def)
  from select_appended [OF f g(1) WorkspaceHandlers_CreateWorkspace_effect(2) [OF v f W_def dep]]
  show ?thesis by (simp add: g)
qed

lemma WorkspaceHandler_Create_stores_names:
  assumes v: "ShouldBindJSON req = None" and f: "\<not> has_workspace d i"
  shows "map_option (\<lambda>w. (HelmReleaseName w, Namespace w)) (select_workspace (fst (snd (WorkspaceHandler_Create_request SQLiteStore1 orchA now i req (d, c)))) i)
           = Some (''ws-'' @ i, ''ws-'' @ i)"
proof -
  define W where "W = (WorkspaceHandler_Create_ws i req)\<lparr>CreatedAt := now, UpdatedAt := now\<rparr>"
  have g: "\<And>st. ID (W\<lparr>Status := st\<rparr>) = i" "ID W = i"
     "\<And>st. HelmReleaseName (W\<lparr>Status := st\<rparr>) = ''ws-'' @ i" "HelmReleaseName W = ''ws-'' @ i"
     "\<And>st. Namespace (W\<lparr>Status := st\<rparr>) = ''ws-'' @ i" "Namespace W = ''ws-'' @ i"
    by (simp_all add: W_def WorkspaceHandler_Create_ws_def Let_def)
  show ?thesis
  proof (cases orchA)
    case None
    from select_appended [OF f g(2) WorkspaceHandler_Create_request_effect_nil(2) [OF v f W_def, of c]]
    show ?thesis by (simp add: None g)
  next
    case (Some orc)
    obtain r c1 where dep: "Orchestrator_DeployWorkspace orc W (Create_secrets i req) c = (r, c1)"
      by (cases "Orchestrator_DeployWorkspace orc W (Create_secrets i req) c")
    from select_appended [OF f g(1) WorkspaceHandler_Create_request_effect(2) [OF v f W_def dep]]
    show ?thesis by (simp add: Some g)
  qed
qed

section \<open>The limit of an events request\<close>

lemma WorkspaceHandler_Events_limit_range:
  "1 \<le> WorkspaceHandler_Events_limit l \<and> WorkspaceHandler_Events_limit l \<le> 100"
  by (simp add: WorkspaceHandler_Events_limit_def split: option.splits)

lemma WorkspaceHandler_Events_limit_default:
  "Atoi l = Some n \<Longrightarrow> 100 < n \<Longrightarrow> WorkspaceHandler_Events_limit l = 50"
  by (auto simp add: WorkspaceHandler_Events_limit_def split: option.splits)

lemma WorkspaceHandlers_GetEvents_limit_parsed:
  "Sscanf_d l = Some n \<Longrightarrow> WorkspaceHandlers_GetEvents_limit l = n"
  by (auto simp add: WorkspaceHandlers_GetEvents_limit_def Sscanf_d_def split: option.splits)

lemma length_select_events:
  "0 \<le> limit \<Longrightarrow>
   length (select_events i limit d) =
     min (nat limit) (length (filter (\<lambda>e. EventWorkspaceID e = i) (workspace_events d)))"
  by (simp add: select_events_def Let_def)

text \<open>
  Claim C4, as stated: an events request with a limit above 100 reads with the limit
  100. It fails in both handlers: \<^verbatim>\<open>WorkspaceHandler.Events\<close> reads with the default 50,
  \<^verbatim>\<open>WorkspaceHandlers.GetEvents\<close> reads with the limit it was given.
\<close>

theorem events_limit_150_not_clamped:
  "WorkspaceHandler_Events_limit ''150'' = 50 \<and> WorkspaceHandlers_GetEvents_limit ''150'' = 150"
  by (simp add: WorkspaceHandler_Events_limit_def WorkspaceHandlers_GetEvents_limit_def
      Atoi_def Sscanf_d_def ParseInt10_def is_digit_def isSpace_def)

text \<open>
  Claim C4, amended: the limit \<^verbatim>\<open>WorkspaceHandler.Events\<close> reads with is always
  between 1 and 100, and a parameter above 100 is replaced by the default 50, not by
  100; \<^verbatim>\<open>WorkspaceHandlers.GetEvents\<close> reads with the number it parsed, whatever its
  size; and neither revision of the registry bounds the limit: for a limit \<open>n \<ge> 0\<close>
  it returns \<open>n\<close> events whenever the workspace has that many.
\<close>

theorem events_limit_above_100:
  "(1 \<le> WorkspaceHandler_Events_limit l \<and> WorkspaceHandler_Events_limit l \<le> 100)
   \<and> (Atoi l = Some n \<and> 100 < n \<longrightarrow> WorkspaceHandler_Events_limit l = 50)
   \<and> (Sscanf_d l = Some n \<longrightarrow> WorkspaceHandlers_GetEvents_limit l = n)
   \<and> (0 \<le> n \<longrightarrow>
        length (fst (SQLiteStore1_GetEvents i n d)) =
          min (nat n) (length (filter (\<lambda>e. EventWorkspaceID e = i) (workspace_events d)))
        \<and> length (fst (SQLiteStore2_GetEvents i n d)) =
          min (nat n) (length (filter (\<lambda>e. EventWorkspaceID e = i) (workspace_events d))))"
  using WorkspaceHandler_Events_limit_range [of l]
    WorkspaceHandler_Events_limit_default [of l n]
    WorkspaceHandlers_GetEvents_limit_parsed [of l n]
    length_select_events [of n i d]
  by (simp add: SQLiteStore1_GetEvents_def SQLiteStore2_GetEvents_def)

theorem events_limit_above_100_witness:
  "Atoi ''150'' = Some 150 \<and> Sscanf_d ''150'' = Some 150 \<and> (100::int) < 150
   \<and> WorkspaceHandler_Events_limit ''150'' = 50
   \<and> WorkspaceHandlers_GetEvents_limit ''150'' = 150
   \<and> length (fst (SQLiteStore2_GetEvents ''a1b2c3d4'' 150 empty_db)) = 0"
proof -
  have a: "Atoi ''150'' = Some 150"
    by (simp add: Atoi_def ParseInt10_def is_digit_def)
  have b: "Sscanf_d ''150'' = Some 150"
    by (simp add: Sscanf_d_def ParseInt10_def is_digit_def isSpace_def)
  have c: "workspace_events empty_db = []"
    by (simp add: empty_db_def)
  from events_limit_above_100 [of "''150''" 150 "''a1b2c3d4''" empty_db] a b c
  show ?thesis by simp
qed

section \<open>Deleting a release that is already absent\<close>

lemma HelmOrchestrator2_DeleteWorkspace_no_error:
  "actionConfig_Init h (''workspace-'' @ ID ws) c = None \<Longrightarrow>
   fst (HelmOrchestrator2_DeleteWorkspace h ws c) = None"
  by (simp add: HelmOrchestrator2_DeleteWorkspace_def Let_def)

lemma HelmOrchestrator1_DeleteWorkspace_uninstall_error:
  "actionConfig_Init h (Namespace ws) c = None \<Longrightarrow>
   fst (Uninstall_Run h (Namespace ws) (HelmReleaseName ws) c) = Some err \<Longrightarrow>
   fst (HelmOrchestrator1_DeleteWorkspace h ws c) = Some (''failed to uninstall helm release: '' @ err)"
  by (cases "Uninstall_Run h (Namespace ws) (HelmReleaseName ws) c")
    (simp add: HelmOrchestrator1_DeleteWorkspace_def)

text \<open>
  Claim C6, as stated: the orchestrator's Delete returns no error when the release is
  already absent, so that two deletions in a row both succeed. The revision of
  \<^verbatim>\<open>HelmOrchestrator\<close> that returns a failed uninstall breaks it: on a cluster that
  holds the release the first deletion succeeds and the second one, which finds the
  release gone, returns the uninstall error.
\<close>

theorem second_delete_returns_uninstall_error:
  "fst (HelmOrchestrator1_DeleteWorkspace cluster_Helm demo_workspace demo_cluster) = None
   \<and> fst (HelmOrchestrator1_DeleteWorkspace cluster_Helm demo_workspace
            (snd (HelmOrchestrator1_DeleteWorkspace cluster_Helm demo_workspace demo_cluster)))
       = Some ''failed to uninstall helm release: uninstall: Release not loaded: hld-a1b2c3d4: release: not found''"
  by (simp add: HelmOrchestrator1_DeleteWorkspace_def cluster_Helm_def demo_workspace_def
      demo_cluster_def)

text \<open>
  Claim C6, amended: \<^verbatim>\<open>DeleteWorkspace\<close> of internal/orchestrator/helm.go returns no
  error whenever the Helm action configuration of the workspace's namespace can be
  initialised, whatever uninstall and namespace deletion answer, so two deletions in a
  row both return no error; \<^verbatim>\<open>DeleteWorkspace\<close> of the other revision returns an
  uninstall failure, which is what it meets when the release is absent, wrapped as
  "failed to uninstall helm release: ...".
\<close>

theorem DeleteWorkspace_release_absent:
  "(actionConfig_Init h (''workspace-'' @ ID ws) c = None \<longrightarrow>
      fst (HelmOrchestrator2_DeleteWorkspace h ws c) = None)
   \<and> ((\<forall>ns c'. actionConfig_Init h ns c' = None) \<longrightarrow>
      fst (HelmOrchestrator2_DeleteWorkspace h ws c) = None
      \<and> fst (HelmOrchestrator2_DeleteWorkspace h ws
               (snd (HelmOrchestrator2_DeleteWorkspace h ws c))) = None)
   \<and> (actionConfig_Init h (Namespace ws) c = None
       \<and> fst (Uninstall_Run h (Namespace ws) (HelmReleaseName ws) c) = Some err \<longrightarrow>
      fst (HelmOrchestrator1_DeleteWorkspace h ws c)
        = Some (''failed to uninstall helm release: '' @ err))"
  using HelmOrchestrator2_DeleteWorkspace_no_error [of h ws]
    HelmOrchestrator1_DeleteWorkspace_uninstall_error [of h ws c err]
  by simp

theorem DeleteWorkspace_release_absent_witness:
  "(\<forall>ns c'. actionConfig_Init cluster_Helm ns c' = None)
   \<and> fst (Uninstall_Run cluster_Helm (Namespace demo_workspace) (HelmReleaseName demo_workspace)
            \<lparr>releases = [], namespaces = []\<rparr>)
       = Some ''uninstall: Release not loaded: hld-a1b2c3d4: release: not found''
   \<and> fst (HelmOrchestrator2_DeleteWorkspace cluster_Helm demo_workspace demo_cluster) = None
   \<and> fst (HelmOrchestrator2_DeleteWorkspace cluster_Helm demo_workspace
            (snd (HelmOrchestrator2_DeleteWorkspace cluster_Helm demo_workspace demo_cluster))) = None
   \<and> fst (HelmOrchestrator1_DeleteWorkspace cluster_Helm demo_workspace \<lparr>releases = [], namespaces = []\<rparr>)
       = Some ''failed to uninstall helm release: uninstall: Release not loaded: hld-a1b2c3d4: release: not found''"
proof -
  have a: "\<forall>ns c'. actionConfig_Init cluster_Helm ns c' = None"
    by (simp add: cluster_Helm_def)
  have b: "fst (Uninstall_Run cluster_Helm (Namespace demo_workspace) (HelmReleaseName demo_workspace)
                  \<lparr>releases = [], namespaces = []\<rparr>)
             = Some ''uninstall: Release not loaded: hld-a1b2c3d4: release: not found''"
    by (simp add: cluster_Helm_def demo_workspace_def)
  from a b
    DeleteWorkspace_release_absent [of cluster_Helm demo_workspace demo_cluster]
    DeleteWorkspace_release_absent [of cluster_Helm demo_workspace "\<lparr>releases = [], namespaces = []\<rparr>"
      "''uninstall: Release not loaded: hld-a1b2c3d4: release: not found''"]
  show ?thesis by simp
qed

section \<open>What \<^verbatim>\<open>UpdateWorkspace\<close> writes\<close>

lemma SQLiteStore1_UpdateWorkspace_frame:
  "map ID (workspaces (snd (snd (SQLiteStore1_UpdateWorkspace t ws d)))) = map ID (workspaces d)
   \<and> map HelmReleaseName (workspaces (snd (snd (SQLiteStore1_UpdateWorkspace t ws d))))
       = map HelmReleaseName (workspaces d)
   \<and> map Namespace (workspaces (snd (snd (SQLiteStore1_UpdateWorkspace t ws d))))
       = map Namespace (workspaces d)
   \<and> (\<forall>r \<in> set (workspaces (snd (snd (SQLiteStore1_UpdateWorkspace t ws d)))).
         ID r = ID ws \<longrightarrow> UpdatedAt r = t)"
  by (auto simp add: SQLiteStore1_UpdateWorkspace_def)

lemma SQLiteStore2_UpdateWorkspace_writes:
  "map ID (workspaces (snd (snd (SQLiteStore2_UpdateWorkspace t ws d)))) = map ID (workspaces d)
   \<and> (\<forall>r \<in> set (workspaces (snd (snd (SQLiteStore2_UpdateWorkspace t ws d)))).
         ID r = ID ws \<longrightarrow>
         HelmReleaseName r = HelmReleaseName ws \<and> Namespace r = Namespace ws \<and> UpdatedAt r = t)"
  by (auto simp add: SQLiteStore2_UpdateWorkspace_def Let_def)

lemma SQLiteStore2_UpdateWorkspace_same_names:
  "\<forall>r \<in> set (workspaces d).
      ID r = ID ws \<longrightarrow> HelmReleaseName r = HelmReleaseName ws \<and> Namespace r = Namespace ws \<Longrightarrow>
   map HelmReleaseName (workspaces (snd (snd (SQLiteStore2_UpdateWorkspace t ws d))))
     = map HelmReleaseName (workspaces d)
   \<and> map Namespace (workspaces (snd (snd (SQLiteStore2_UpdateWorkspace t ws d))))
       = map Namespace (workspaces d)"
  by (auto simp add: SQLiteStore2_UpdateWorkspace_def Let_def)

text \<open>
  Claim C7, as stated: every registry Update leaves id, helm release name and namespace
  of the workspace unchanged. The second revision of the store lists
  \<^verbatim>\<open>helm_release_name\<close> and \<^verbatim>\<open>namespace\<close> among the columns it sets: an update whose
  argument carries other names than the stored ones overwrites them.
\<close>

theorem update_overwrites_release_name_and_namespace:
  "map HelmReleaseName (workspaces demo_db) = [''hld-a1b2c3d4'']
   \<and> map Namespace (workspaces demo_db) = [''workspace-a1b2c3d4'']
   \<and> map HelmReleaseName (workspaces (snd (snd (SQLiteStore2_UpdateWorkspace 9
        (demo_workspace\<lparr>HelmReleaseName := ''other'', Namespace := ''elsewhere''\<rparr>) demo_db))))
       = [''other'']
   \<and> map Namespace (workspaces (snd (snd (SQLiteStore2_UpdateWorkspace 9
        (demo_workspace\<lparr>HelmReleaseName := ''other'', Namespace := ''elsewhere''\<rparr>) demo_db))))
       = [''elsewhere'']"
  by (simp add: SQLiteStore2_UpdateWorkspace_def demo_db_def demo_workspace_def Let_def)

text \<open>
  Claim C7, amended: the first revision of \<^verbatim>\<open>UpdateWorkspace\<close> leaves id, helm release
  name and namespace of every row unchanged and sets updated-at of the rows of the given
  id to the current time. The second revision leaves the id of every row unchanged and
  sets, in the rows of the given id, helm release name and namespace to those of its
  argument and updated-at to the current time; so it leaves the two names unchanged
  when its argument carries the stored ones.
\<close>

theorem UpdateWorkspace_id_release_namespace:
  "(map ID (workspaces (snd (snd (SQLiteStore1_UpdateWorkspace t ws d)))) = map ID (workspaces d)
    \<and> map HelmReleaseName (workspaces (snd (snd (SQLiteStore1_UpdateWorkspace t ws d))))
        = map HelmReleaseName (workspaces d)
    \<and> map Namespace (workspaces (snd (snd (SQLiteStore1_UpdateWorkspace t ws d))))
        = map Namespace (workspaces d)
    \<and> (\<forall>r \<in> set (workspaces (snd (snd (SQLiteStore1_UpdateWorkspace t ws d)))).
          ID r = ID ws \<longrightarrow> UpdatedAt r = t))
   \<and> (map ID (workspaces (snd (snd (SQLiteStore2_UpdateWorkspace t ws d)))) = map ID (workspaces d)
    \<and> (\<forall>r \<in> set (workspaces (snd (snd (SQLiteStore2_UpdateWorkspace t ws d)))).
          ID r = ID ws \<longrightarrow>
          HelmReleaseName r = HelmReleaseName ws \<and> Namespace r = Namespace ws \<and> UpdatedAt r = t)
    \<and> ((\<forall>r \<in> set (workspaces d).
           ID r = ID ws \<longrightarrow> HelmReleaseName r = HelmReleaseName ws \<and> Namespace r = Namespace ws) \<longrightarrow>
        map HelmReleaseName (workspaces (snd (snd (SQLiteStore2_UpdateWorkspace t ws d))))
          = map HelmReleaseName (workspaces d)
        \<and> map Namespace (workspaces (snd (snd (SQLiteStore2_UpdateWorkspace t ws d))))
            = map Namespace (workspaces d)))"
  using SQLiteStore1_UpdateWorkspace_frame [of t ws d]
    SQLiteStore2_UpdateWorkspace_writes [of t ws d]
    SQLiteStore2_UpdateWorkspace_same_names [of d ws t]
  by blast

theorem UpdateWorkspace_id_release_namespace_witness:
  "map ID (workspaces (snd (snd (SQLiteStore1_UpdateWorkspace 9
       (demo_workspace\<lparr>Status := StatusStopped, HelmReleaseName := ''other''\<rparr>) demo_db))))
     = [''a1b2c3d4'']
   \<and> map HelmReleaseName (workspaces (snd (snd (SQLiteStore1_UpdateWorkspace 9
       (demo_workspace\<lparr>Status := StatusStopped, HelmReleaseName := ''other''\<rparr>) demo_db))))
     = [''hld-a1b2c3d4'']
   \<and> map Namespace (workspaces (snd (snd (SQLiteStore1_UpdateWorkspace 9
       (demo_workspace\<lparr>Status := StatusStopped, HelmReleaseName := ''other''\<rparr>) demo_db))))
     = [''workspace-a1b2c3d4'']
   \<and> map HelmReleaseName (workspaces (snd (snd (SQLiteStore2_UpdateWorkspace 9
       (demo_workspace\<lparr>Status := StatusStopped\<rparr>) demo_db))))
     = [''hld-a1b2c3d4'']
   \<and> map Namespace (workspaces (snd (snd (SQLiteStore2_UpdateWorkspace 9
       (demo_workspace\<lparr>Status := StatusStopped\<rparr>) demo_db))))
     = [''workspace-a1b2c3d4'']
   \<and> map UpdatedAt (workspaces (snd (snd (SQLiteStore2_UpdateWorkspace 9
       (demo_workspace\<lparr>Status := StatusStopped\<rparr>) demo_db))))
     = [9]"
proof -
  have a: "workspaces demo_db = [demo_workspace]"
    by (simp add: demo_db_def)
  have b: "ID demo_workspace = ''a1b2c3d4'' \<and> HelmReleaseName demo_workspace = ''hld-a1b2c3d4''
           \<and> Namespace demo_workspace = ''workspace-a1b2c3d4''"
    by (simp add: demo_workspace_def)
  have c: "map UpdatedAt (workspaces (snd (snd (SQLiteStore2_UpdateWorkspace 9
       (demo_workspace\<lparr>Status := StatusStopped\<rparr>) demo_db)))) = [9]"
    by (simp add: SQLiteStore2_UpdateWorkspace_def demo_db_def Let_def)
  from a b c
    UpdateWorkspace_id_release_namespace [of 9
      "demo_workspace\<lparr>Status := StatusStopped, HelmReleaseName := ''other''\<rparr>" demo_db]
    UpdateWorkspace_id_release_namespace [of 9 "demo_workspace\<lparr>Status := StatusStopped\<rparr>" demo_db]
  show ?thesis by simp
qed

section \<open>A workspace that is nil without an error\<close>


section \<open>Start and Stop\<close>

lemma WorkspaceHandlers_StartWorkspace_orchestrator_error:
  "Store_GetWorkspace store i s = (Some ws, None) \<Longrightarrow>
   Orchestrator_StartWorkspace orch ws c = (Some err, c1) \<Longrightarrow>
   WorkspaceHandlers_StartWorkspace store orch now i (s, c)
     = (JSON StatusInternalServerError (WorkspaceResponse None (Some (''failed to start: '' @ err))), s, c1)"
  by (simp add: WorkspaceHandlers_StartWorkspace_def)

lemma WorkspaceHandlers_StopWorkspace_orchestrator_error:
  "Store_GetWorkspace store i s = (Some ws, None) \<Longrightarrow>
   Orchestrator_StopWorkspace orch ws c = (Some err, c1) \<Longrightarrow>
   WorkspaceHandlers_StopWorkspace store orch now i (s, c)
     = (JSON StatusInternalServerError (WorkspaceResponse None (Some (''failed to stop: '' @ err))), s, c1)"
  by (simp add: WorkspaceHandlers_StopWorkspace_def)

lemma WorkspaceHandler_Start_orchestrator_error:
  "Store_GetWorkspace store i s = (Some ws, None) \<Longrightarrow> Status ws \<noteq> StatusRunning \<Longrightarrow>
   Orchestrator_StartWorkspace orc ws c = (Some err, c1) \<Longrightarrow>
   WorkspaceHandler_Start store (Some orc) now i (s, c)
     = (JSON StatusInternalServerError (ErrorResponse ''Failed to start workspace''), s, c1)"
  by (simp add: WorkspaceHandler_Start_def)

lemma WorkspaceHandler_Stop_orchestrator_error:
  "Store_GetWorkspace store i s = (Some ws, None) \<Longrightarrow> Status ws \<noteq> StatusStopped \<Longrightarrow>
   Orchestrator_StopWorkspace orc ws c = (Some err, c1) \<Longrightarrow>
   WorkspaceHandler_Stop store (Some orc) now i (s, c)
     = (JSON StatusInternalServerError (ErrorResponse ''Failed to stop workspace''), s, c1)"
  by (simp add: WorkspaceHandler_Stop_def)

lemma WorkspaceHandler_Start_already_running:
  "Store_GetWorkspace store i s = (Some ws, None) \<Longrightarrow> Status ws = StatusRunning \<Longrightarrow>
   WorkspaceHandler_Start store orch now i (s, c)
     = (JSON StatusBadRequest (ErrorResponse ''Workspace is already running''), s, c)"
  by (simp add: WorkspaceHandler_Start_def)

lemma WorkspaceHandler_Stop_already_stopped:
  "Store_GetWorkspace store i s = (Some ws, None) \<Longrightarrow> Status ws = StatusStopped \<Longrightarrow>
   WorkspaceHandler_Stop store orch now i (s, c)
     = (JSON StatusBadRequest (ErrorResponse ''Workspace is already stopped''), s, c)"
  by (simp add: WorkspaceHandler_Stop_def)

lemma WorkspaceHandlers_StartWorkspace_ok:
  "Store_GetWorkspace store i s = (Some ws, None) \<Longrightarrow>
   fst (Orchestrator_StartWorkspace orch ws c) = None \<Longrightarrow>
   fst (WorkspaceHandlers_StartWorkspace store orch now i (s, c))
     = JSON StatusOK (WorkspaceResponse
         (Some (ToDTO (fst (snd (Store_UpdateWorkspace store now (ws\<lparr>Status := StatusRunning\<rparr>) s)))))
         None)"
  by (cases "Orchestrator_StartWorkspace orch ws c")
    (simp add: WorkspaceHandlers_StartWorkspace_def Let_def split: prod.splits)

lemma WorkspaceHandlers_StopWorkspace_ok:
  "Store_GetWorkspace store i s = (Some ws, None) \<Longrightarrow>
   fst (Orchestrator_StopWorkspace orch ws c) = None \<Longrightarrow>
   fst (WorkspaceHandlers_StopWorkspace store orch now i (s, c))
     = JSON StatusOK (WorkspaceResponse
         (Some (ToDTO (fst (snd (Store_UpdateWorkspace store now (ws\<lparr>Status := StatusStopped\<rparr>) s)))))
         None)"
  by (cases "Orchestrator_StopWorkspace orch ws c")
    (simp add: WorkspaceHandlers_StopWorkspace_def Let_def split: prod.splits)

text \<open>
  Claim C8: when the orchestrator call of a Start or Stop request returns an error, the
  declared status in the registry is left unchanged and an internal error is returned.
  For any store and any orchestrator: a request that reaches the orchestrator call (the
  workspace was found; in \<^verbatim>\<open>WorkspaceHandler\<close>, it is not yet in the requested state
  and there is an orchestrator) and gets an error from it answers 500 and leaves the
  registry in the state in which it found it.
\<close>

theorem Start_Stop_orchestrator_error:
  "(Store_GetWorkspace store i s = (Some ws, None)
    \<and> Orchestrator_StartWorkspace orch ws c = (Some err, c1) \<longrightarrow>
      WorkspaceHandlers_StartWorkspace store orch now i (s, c)
        = (JSON StatusInternalServerError
             (WorkspaceResponse None (Some (''failed to start: '' @ err))), s, c1))
   \<and> (Store_GetWorkspace store i s = (Some ws, None)
    \<and> Orchestrator_StopWorkspace orch ws c = (Some err, c1) \<longrightarrow>
      WorkspaceHandlers_StopWorkspace store orch now i (s, c)
        = (JSON StatusInternalServerError
             (WorkspaceResponse None (Some (''failed to stop: '' @ err))), s, c1))
   \<and> (Store_GetWorkspace store i s = (Some ws, None) \<and> Status ws \<noteq> StatusRunning
    \<and> Orchestrator_StartWorkspace orch ws c = (Some err, c1) \<longrightarrow>
      WorkspaceHandler_Start store (Some orch) now i (s, c)
        = (JSON StatusInternalServerError (ErrorResponse ''Failed to start workspace''), s, c1))
   \<and> (Store_GetWorkspace store i s = (Some ws, None) \<and> Status ws \<noteq> StatusStopped
    \<and> Orchestrator_StopWorkspace orch ws c = (Some err, c1) \<longrightarrow>
      WorkspaceHandler_Stop store (Some orch) now i (s, c)
        = (JSON StatusInternalServerError (ErrorResponse ''Failed to stop workspace''), s, c1))"
  using WorkspaceHandlers_StartWorkspace_orchestrator_error [of store i s ws orch c err c1 now]
    WorkspaceHandlers_StopWorkspace_orchestrator_error [of store i s ws orch c err c1 now]
    WorkspaceHandler_Start_orchestrator_error [of store i s ws orch c err c1 now]
    WorkspaceHandler_Stop_orchestrator_error [of store i s ws orch c err c1 now]
  by blast

theorem Start_Stop_orchestrator_error_witness:
  "Store_GetWorkspace SQLiteStore2 ''a1b2c3d4'' demo_db = (Some demo_workspace, None)
   \<and> Orchestrator_StartWorkspace (FailingOrchestrator ''boom'') demo_workspace () = (Some ''boom'', ())
   \<and> Orchestrator_StopWorkspace (FailingOrchestrator ''boom'') demo_workspace () = (Some ''boom'', ())
   \<and> Status demo_workspace \<noteq> StatusStopped
   \<and> WorkspaceHandlers_StartWorkspace SQLiteStore2 (FailingOrchestrator ''boom'') 9 ''a1b2c3d4'' (demo_db, ())
       = (JSON StatusInternalServerError (WorkspaceResponse None (Some ''failed to start: boom'')),
          demo_db, ())
   \<and> WorkspaceHandlers_StopWorkspace SQLiteStore2 (FailingOrchestrator ''boom'') 9 ''a1b2c3d4'' (demo_db, ())
       = (JSON StatusInternalServerError (WorkspaceResponse None (Some ''failed to stop: boom'')),
          demo_db, ())
   \<and> WorkspaceHandler_Stop SQLiteStore2 (Some (FailingOrchestrator ''boom'')) 9 ''a1b2c3d4'' (demo_db, ())
       = (JSON StatusInternalServerError (ErrorResponse ''Failed to stop workspace''), demo_db, ())"
proof -
  have a: "Store_GetWorkspace SQLiteStore2 ''a1b2c3d4'' demo_db = (Some demo_workspace, None)"
    by (simp add: SQLiteStore2_def SQLiteStore2_GetWorkspace_def select_workspace_def demo_db_def
        demo_workspace_def)
  have b: "Orchestrator_StartWorkspace (FailingOrchestrator ''boom'') demo_workspace () = (Some ''boom'', ())"
    "Orchestrator_StopWorkspace (FailingOrchestrator ''boom'') demo_workspace () = (Some ''boom'', ())"
    by (simp_all add: FailingOrchestrator_def)
  have c: "Status demo_workspace \<noteq> StatusStopped"
    by (simp add: demo_workspace_def StatusRunning_def StatusStopped_def)
  from a b c
    Start_Stop_orchestrator_error [of SQLiteStore2 "''a1b2c3d4''" demo_db demo_workspace
      "FailingOrchestrator ''boom''" "()" "''boom''" "()" 9]
  show ?thesis by simp
qed

text \<open>
  Claim C3, as stated: a Stop request on a workspace that is already stopped returns
  success, and a Start request on one that is already running returns success.
  \<^verbatim>\<open>WorkspaceHandler\<close> refuses both with 400.
\<close>

theorem Start_running_is_bad_request:
  "fst (WorkspaceHandler_Start SQLiteStore1 (Some (MockOrchestrator None)) 9 ''a1b2c3d4'' (demo_db, ()))
     = JSON StatusBadRequest (ErrorResponse ''Workspace is already running'')
   \<and> fst (WorkspaceHandler_Stop SQLiteStore1 (Some (MockOrchestrator None)) 9 ''a1b2c3d4'' (stopped_db, ()))
       = JSON StatusBadRequest (ErrorResponse ''Workspace is already stopped'')"
  by (simp add: WorkspaceHandler_Start_def WorkspaceHandler_Stop_def SQLiteStore1_def
      SQLiteStore1_GetWorkspace_def select_workspace_def demo_db_def stopped_db_def demo_workspace_def
      StatusRunning_def StatusStopped_def)

text \<open>
  Claim C3, amended: in \<^verbatim>\<open>WorkspaceHandler\<close>, a Start request on a workspace whose
  declared status is running answers 400 "Workspace is already running", and a Stop
  request on one that is stopped answers 400 "Workspace is already stopped"; neither
  calls the orchestrator or changes the registry. In \<^verbatim>\<open>WorkspaceHandlers\<close> there is no
  such check: the request calls the orchestrator again and, when that call returns no
  error, answers 200 with the workspace as written back.
\<close>

theorem Start_running_Stop_stopped:
  "(Store_GetWorkspace store i s = (Some ws, None) \<and> Status ws = StatusRunning \<longrightarrow>
      WorkspaceHandler_Start store orchA now i (s, c)
        = (JSON StatusBadRequest (ErrorResponse ''Workspace is already running''), s, c))
   \<and> (Store_GetWorkspace store i s = (Some ws, None) \<and> Status ws = StatusStopped \<longrightarrow>
      WorkspaceHandler_Stop store orchA now i (s, c)
        = (JSON StatusBadRequest (ErrorResponse ''Workspace is already stopped''), s, c))
   \<and> (Store_GetWorkspace store i s = (Some ws, None) \<and> Status ws = StatusRunning
       \<and> fst (Orchestrator_StartWorkspace orch ws c) = None \<longrightarrow>
      fst (WorkspaceHandlers_StartWorkspace store orch now i (s, c))
        = JSON StatusOK (WorkspaceResponse
            (Some (ToDTO (fst (snd (Store_UpdateWorkspace store now (ws\<lparr>Status := StatusRunning\<rparr>) s)))))
            None))
   \<and> (Store_GetWorkspace store i s = (Some ws, None) \<and> Status ws = StatusStopped
       \<and> fst (Orchestrator_StopWorkspace orch ws c) = None \<longrightarrow>
      fst (WorkspaceHandlers_StopWorkspace store orch now i (s, c))
        = JSON StatusOK (WorkspaceResponse
            (Some (ToDTO (fst (snd (Store_UpdateWorkspace store now (ws\<lparr>Status := StatusStopped\<rparr>) s)))))
            None))"
  using WorkspaceHandler_Start_already_running [of store i s ws orchA now c]
    WorkspaceHandler_Stop_already_stopped [of store i s ws orchA now c]
    WorkspaceHandlers_StartWorkspace_ok [of store i s ws orch c now]
    WorkspaceHandlers_StopWorkspace_ok [of store i s ws orch c now]
  by blast

theorem Start_running_Stop_stopped_witness:
  "Store_GetWorkspace SQLiteStore2 ''a1b2c3d4'' demo_db = (Some demo_workspace, None)
   \<and> Status demo_workspace = StatusRunning
   \<and> fst (Orchestrator_StartWorkspace (MockOrchestrator None) demo_workspace ()) = None
   \<and> WorkspaceHandler_Start SQLiteStore2 (Some (MockOrchestrator None)) 9 ''a1b2c3d4'' (demo_db, ())
       = (JSON StatusBadRequest (ErrorResponse ''Workspace is already running''), demo_db, ())
   \<and> fst (WorkspaceHandlers_StartWorkspace SQLiteStore2 (MockOrchestrator None) 9 ''a1b2c3d4'' (demo_db, ()))
       = JSON StatusOK (WorkspaceResponse (Some (ToDTO (demo_workspace\<lparr>UpdatedAt := 9\<rparr>))) None)"
proof -
  have a: "Store_GetWorkspace SQLiteStore2 ''a1b2c3d4'' demo_db = (Some demo_workspace, None)"
    by (simp add: SQLiteStore2_def SQLiteStore2_GetWorkspace_def select_workspace_def demo_db_def
        demo_workspace_def)
  have b: "Status demo_workspace = StatusRunning"
    by (simp add: demo_workspace_def)
  have c: "fst (Orchestrator_StartWorkspace (MockOrchestrator None) demo_workspace ()) = None"
    by (simp add: MockOrchestrator_def)
  have d: "fst (snd (Store_UpdateWorkspace SQLiteStore2 9 (demo_workspace\<lparr>Status := StatusRunning\<rparr>) demo_db))
             = demo_workspace\<lparr>UpdatedAt := 9\<rparr>"
    by (simp add: SQLiteStore2_def SQLiteStore2_UpdateWorkspace_def Let_def demo_workspace_def)
  from a b c d
    Start_running_Stop_stopped [of SQLiteStore2 "''a1b2c3d4''" demo_db demo_workspace
      "Some (MockOrchestrator None)" 9 "()" "MockOrchestrator None"]
  show ?thesis by simp
qed

section \<open>Create and the outcome of Deploy\<close>




section \<open>The git-enabled flag of a new workspace\<close>

lemma WorkspaceHandlers_CreateWorkspace_GitEnabled:
  assumes v: "api_ShouldBindJSON req = None" and f: "\<not> has_workspace d i"
  shows "map_option GitEnabled (select_workspace
           (fst (snd (WorkspaceHandlers_CreateWorkspace SQLiteStore2 orch now i req (d, c)))) i)
         = Some (ReqGitUserName req \<noteq> [] \<and> ReqGitUserEmail req \<noteq> [])"
proof -
  define W where "W = (WorkspaceHandlers_CreateWorkspace_ws i req)\<lparr>CreatedAt := now, UpdatedAt := now\<rparr>"
  obtain r c1 where dep: "Orchestrator_DeployWorkspace orch W (Create_secrets i req) c = (r, c1)"
    by (cases "Orchestrator_DeployWorkspace orch W (Create_secrets i req) c")
  have g: "\<And>st. ID (W\<lparr>Status := st\<rparr>) = i"
     "\<And>st. GitEnabled (W\<lparr>Status := st\<rparr>) = (ReqGitUserName req \<noteq> [] \<and> ReqGitUserEmail req \<noteq> [])"
    by (simp_all add: W_def WorkspaceHandlers_CreateWorkspace_ws_def)
  from select_appended [OF f g(1) WorkspaceHandlers_CreateWorkspace_effect(2) [OF v f W_def dep]]
  show ?thesis by (simp add: g)
qed

lemma WorkspaceHandler_Create_GitEnabled:
  assumes v: "ShouldBindJSON req = None" and f: "\<not> has_workspace d i"
  shows "map_option GitEnabled (select_workspace
           (fst (snd (WorkspaceHandler_Create_request SQLiteStore1 orchA now i req (d, c)))) i)
         = Some (ReqGitUserName req \<noteq> [] \<or> ReqGitUserEmail req \<noteq> []
                 \<or> ''gh_token'' \<in> fst ` set (ReqSecrets req))"
proof -
  define W where "W = (WorkspaceHandler_Create_ws i req)\<lparr>CreatedAt := now, UpdatedAt := now\<rparr>"
  have g: "\<And>st. ID (W\<lparr>Status := st\<rparr>) = i" "ID W = i"
     "\<And>st. GitEnabled (W\<lparr>Status := st\<rparr>) =
        (ReqGitUserName req \<noteq> [] \<or> ReqGitUserEmail req \<noteq> [] \<or> ''gh_token'' \<in> fst ` set (ReqSecrets req))"
     "GitEnabled W =
        (ReqGitUserName req \<noteq> [] \<or> ReqGitUserEmail req \<noteq> [] \<or> ''gh_token'' \<in> fst ` set (ReqSecrets req))"
    by (auto simp add: W_def WorkspaceHandler_Create_ws_def Let_def map_of_eq_None_iff)
  show ?thesis
  proof (cases orchA)
    case None
    from select_appended [OF f g(2) WorkspaceHandler_Create_request_effect_nil(2) [OF v f W_def, of c]]
    show ?thesis by (simp add: None g)
  next
    case (Some orc)
    obtain r c1 where dep: "Orchestrator_DeployWorkspace orc W (Create_secrets i req) c = (r, c1)"
      by (cases "Orchestrator_DeployWorkspace orc W (Create_secrets i req) c")
    from select_appended [OF f g(1) WorkspaceHandler_Create_request_effect(2) [OF v f W_def dep]]
    show ?thesis by (simp add: Some g)
  qed
qed

text \<open>
  Claim C5, as stated: the stored git-enabled flag is true if and only if committer name
  and email are both present, or the secrets contain the key \<^verbatim>\<open>gh_token\<close>.
  \<^verbatim>\<open>WorkspaceHandler.Create\<close> enables git for a request that has a committer name and
  neither email nor token; \<^verbatim>\<open>WorkspaceHandlers.CreateWorkspace\<close> leaves it disabled for a
  request whose secrets contain \<^verbatim>\<open>gh_token\<close>.
\<close>

theorem git_enabled_by_name_alone_not_by_token:
  "map GitEnabled (workspaces (fst (snd
       (NewRouter SQLiteStore1 (None :: unit Orchestrator option) 7
          (POST_workspaces ''a1b2c3d4'' (demo_request\<lparr>ReqGitUserName := ''n''\<rparr>)) (empty_db, ())))))
     = [True]
   \<and> map GitEnabled (workspaces (fst (snd
       (main_routes SQLiteStore2 (MockOrchestrator None) 7
          (POST_workspaces ''a1b2c3d4'' (demo_request\<lparr>ReqSecrets := [(''gh_token'', ''ghp_y'')]\<rparr>))
          (empty_db, ())))))
     = [False]"
proof -
  have v: "ShouldBindJSON (demo_request\<lparr>ReqGitUserName := ''n''\<rparr>) = None"
     "api_ShouldBindJSON (demo_request\<lparr>ReqSecrets := [(''gh_token'', ''ghp_y'')]\<rparr>) = None"
    by (simp_all add: ShouldBindJSON_def api_ShouldBindJSON_def demo_request_def)
  have f: "\<not> has_workspace empty_db ''a1b2c3d4''"
    by (simp add: has_workspace_def empty_db_def)
  have e: "workspaces empty_db = []"
    by (simp add: empty_db_def)
  have d1: "Orchestrator_DeployWorkspace (MockOrchestrator None)
              ((WorkspaceHandlers_CreateWorkspace_ws ''a1b2c3d4''
                  (demo_request\<lparr>ReqSecrets := [(''gh_token'', ''ghp_y'')]\<rparr>))\<lparr>CreatedAt := 7, UpdatedAt := 7\<rparr>)
              (Create_secrets ''a1b2c3d4'' (demo_request\<lparr>ReqSecrets := [(''gh_token'', ''ghp_y'')]\<rparr>)) ()
            = (None, ())"
    by (simp add: MockOrchestrator_def)
  show ?thesis
    using WorkspaceHandler_Create_request_effect_nil(2) [OF v(1) f refl, of 7 "()"]
      WorkspaceHandlers_CreateWorkspace_effect(2) [OF v(2) f refl d1]
    by (simp add: NewRouter_def main_routes_def e WorkspaceHandler_Create_ws_def
        WorkspaceHandlers_CreateWorkspace_ws_def demo_request_def Let_def)
qed

text \<open>
  Claim C5, amended: for a create request with a valid body and an id not yet in the
  registry, the git-enabled flag that \<^verbatim>\<open>WorkspaceHandlers.CreateWorkspace\<close> stores is true
  if and only if committer name and email are both present (the secrets play no part);
  the flag that \<^verbatim>\<open>WorkspaceHandler.Create\<close> stores is true if and only if the committer
  name or the committer email is present, or the secrets contain the key \<^verbatim>\<open>gh_token\<close>.
\<close>

theorem Create_GitEnabled:
  "(api_ShouldBindJSON req = None \<and> \<not> has_workspace d i \<longrightarrow>
      map_option GitEnabled (select_workspace
         (fst (snd (WorkspaceHandlers_CreateWorkspace SQLiteStore2 orch now i req (d, c)))) i)
       = Some (ReqGitUserName req \<noteq> [] \<and> ReqGitUserEmail req \<noteq> []))
   \<and> (ShouldBindJSON req = None \<and> \<not> has_workspace d i \<longrightarrow>
      map_option GitEnabled (select_workspace
         (fst (snd (WorkspaceHandler_Create_request SQLiteStore1 orchA now i req (d, c)))) i)
       = Some (ReqGitUserName req \<noteq> [] \<or> ReqGitUserEmail req \<noteq> []
               \<or> ''gh_token'' \<in> fst ` set (ReqSecrets req)))"
  using WorkspaceHandlers_CreateWorkspace_GitEnabled [of req d i orch now c]
    WorkspaceHandler_Create_GitEnabled [of req d i orchA now c]
  by blast

theorem Create_GitEnabled_witness:
  "api_ShouldBindJSON (demo_request\<lparr>ReqGitUserName := ''n'', ReqGitUserEmail := ''e''\<rparr>) = None
   \<and> ShouldBindJSON (demo_request\<lparr>ReqGitUserName := ''n'', ReqGitUserEmail := ''e''\<rparr>) = None
   \<and> \<not> has_workspace empty_db ''a1b2c3d4''
   \<and> map_option GitEnabled (select_workspace
        (fst (snd (WorkspaceHandlers_CreateWorkspace SQLiteStore2 (MockOrchestrator None) 7 ''a1b2c3d4''
           (demo_request\<lparr>ReqGitUserName := ''n'', ReqGitUserEmail := ''e''\<rparr>) (empty_db, ()))))
        ''a1b2c3d4'') = Some True
   \<and> map_option GitEnabled (select_workspace
        (fst (snd (WorkspaceHandler_Create_request SQLiteStore1 (Some (MockOrchestrator None)) 7 ''a1b2c3d4''
           (demo_request\<lparr>ReqGitUserName := ''n'', ReqGitUserEmail := ''e''\<rparr>) (empty_db, ()))))
        ''a1b2c3d4'') = Some True"
proof -
  have v: "api_ShouldBindJSON (demo_request\<lparr>ReqGitUserName := ''n'', ReqGitUserEmail := ''e''\<rparr>) = None"
     "ShouldBindJSON (demo_request\<lparr>ReqGitUserName := ''n'', ReqGitUserEmail := ''e''\<rparr>) = None"
    by (simp_all add: ShouldBindJSON_def api_ShouldBindJSON_def demo_request_def)
  have f: "\<not> has_workspace empty_db ''a1b2c3d4''"
    by (simp add: has_workspace_def empty_db_def)
  from v f
    Create_GitEnabled [of "demo_request\<lparr>ReqGitUserName := ''n'', ReqGitUserEmail := ''e''\<rparr>"
      empty_db "''a1b2c3d4''" "MockOrchestrator None" 7 "()" "Some (MockOrchestrator None)"]
  show ?thesis by simp
qed

section \<open>The names a create request stores\<close>

text \<open>
  Claim C1, as stated: a workspace created by a successful Create call is stored with
  the helm release name \<^verbatim>\<open>hld-\<close> followed by its id and the namespace \<^verbatim>\<open>workspace-\<close>
  followed by its id, and these are never changed afterwards. A successful
  \<^verbatim>\<open>WorkspaceHandler.Create\<close> stores \<^verbatim>\<open>ws-\<close> followed by the id for both.
\<close>

theorem Create_stores_ws_prefix:
  "fst (NewRouter SQLiteStore1 (Some (MockOrchestrator None)) 7
          (POST_workspaces ''a1b2c3d4'' demo_request) (empty_db, ()))
     = JSON StatusCreated (WorkspaceResponse
         (Some (workspaceToDTO ((WorkspaceHandler_Create_ws ''a1b2c3d4'' demo_request)
                   \<lparr>CreatedAt := 7, UpdatedAt := 7\<rparr>))) None)
   \<and> map HelmReleaseName (workspaces (fst (snd
         (NewRouter SQLiteStore1 (Some (MockOrchestrator None)) 7
            (POST_workspaces ''a1b2c3d4'' demo_request) (empty_db, ())))))
       = [''ws-a1b2c3d4'']
   \<and> map Namespace (workspaces (fst (snd
         (NewRouter SQLiteStore1 (Some (MockOrchestrator None)) 7
            (POST_workspaces ''a1b2c3d4'' demo_request) (empty_db, ())))))
       = [''ws-a1b2c3d4'']"
proof -
  have v: "ShouldBindJSON demo_request = None"
    by (simp add: ShouldBindJSON_def demo_request_def)
  have f: "\<not> has_workspace empty_db ''a1b2c3d4''"
    by (simp add: has_workspace_def empty_db_def)
  have e: "workspaces empty_db = []"
    by (simp add: empty_db_def)
  have d1: "Orchestrator_DeployWorkspace (MockOrchestrator None)
              ((WorkspaceHandler_Create_ws ''a1b2c3d4'' demo_request)\<lparr>CreatedAt := 7, UpdatedAt := 7\<rparr>)
              (Create_secrets ''a1b2c3d4'' demo_request) () = (None, ())"
    by (simp add: MockOrchestrator_def)
  show ?thesis
    using WorkspaceHandler_Create_request_effect(1,2) [OF v f refl d1]
    by (simp add: NewRouter_def e WorkspaceHandler_Create_ws_def Let_def)
qed

text \<open>
  Claim C1, amended. A create request with a valid body and an id not yet in the
  registry stores the workspace with helm release name \<^verbatim>\<open>hld-\<close> + id and namespace
  \<^verbatim>\<open>workspace-\<close> + id in \<^verbatim>\<open>WorkspaceHandlers.CreateWorkspace\<close>, and with \<^verbatim>\<open>ws-\<close> + id
  for both in \<^verbatim>\<open>WorkspaceHandler.Create\<close>. No request changes them afterwards: when
  every stored workspace has the names derived from its id with the prefixes of a
  handler, it still has them after any request served by that handler on the SQLite
  registry that goes with it, and after a background deployment at any later moment.
\<close>

theorem stored_release_name_and_namespace:
  "(api_ShouldBindJSON req = None \<and> \<not> has_workspace d i \<longrightarrow>
      map_option (\<lambda>w. (HelmReleaseName w, Namespace w))
        (select_workspace (fst (snd (WorkspaceHandlers_CreateWorkspace SQLiteStore2 orch now i req (d, c)))) i)
      = Some (''hld-'' @ i, ''workspace-'' @ i))
   \<and> (ShouldBindJSON req = None \<and> \<not> has_workspace d i \<longrightarrow>
      map_option (\<lambda>w. (HelmReleaseName w, Namespace w))
        (select_workspace (fst (snd (WorkspaceHandler_Create_request SQLiteStore1 orchA now i req (d, c)))) i)
      = Some (''ws-'' @ i, ''ws-'' @ i))
   \<and> (names_derived ''hld-'' ''workspace-'' d \<longrightarrow>
      names_derived ''hld-'' ''workspace-'' (fst (snd (main_routes SQLiteStore2 orch now r (d, c)))))
   \<and> (names_derived ''ws-'' ''ws-'' d \<longrightarrow>
      names_derived ''ws-'' ''ws-'' (fst (snd (NewRouter SQLiteStore1 orchA now r (d, c)))))
   \<and> (names_derived ''ws-'' ''ws-'' d \<longrightarrow>
      names_derived ''ws-'' ''ws-''
        (fst (WorkspaceHandler_Create_deploy SQLiteStore1 orch now j ws secrets (d, c))))"
  using WorkspaceHandlers_CreateWorkspace_stores_names [of req d i orch now c]
    WorkspaceHandler_Create_stores_names [of req d i orchA now c]
    main_routes_names [of d orch now r c]
    NewRouter_names [of d orchA now r c]
    WorkspaceHandler_Create_deploy_names [of "''ws-''" "''ws-''" d orch now j ws secrets c]
  by blast

theorem stored_release_name_and_namespace_witness:
  "api_ShouldBindJSON demo_request = None \<and> ShouldBindJSON demo_request = None
   \<and> \<not> has_workspace empty_db ''a1b2c3d4''
   \<and> map_option (\<lambda>w. (HelmReleaseName w, Namespace w))
        (select_workspace (fst (snd (WorkspaceHandlers_CreateWorkspace SQLiteStore2 (MockOrchestrator None) 7
            ''a1b2c3d4'' demo_request (empty_db, ())))) ''a1b2c3d4'')
       = Some (''hld-a1b2c3d4'', ''workspace-a1b2c3d4'')
   \<and> map_option (\<lambda>w. (HelmReleaseName w, Namespace w))
        (select_workspace (fst (snd (WorkspaceHandler_Create_request SQLiteStore1 (Some (MockOrchestrator None)) 7
            ''a1b2c3d4'' demo_request (empty_db, ())))) ''a1b2c3d4'')
       = Some (''ws-a1b2c3d4'', ''ws-a1b2c3d4'')
   \<and> names_derived ''hld-'' ''workspace-'' demo_db
   \<and> names_derived ''hld-'' ''workspace-''
        (fst (snd (main_routes SQLiteStore2 (MockOrchestrator None) 7 (POST_stop ''a1b2c3d4'') (demo_db, ()))))
   \<and> names_derived ''ws-'' ''ws-'' empty_db
   \<and> names_derived ''ws-'' ''ws-''
        (fst (snd (NewRouter SQLiteStore1 (Some (MockOrchestrator None)) 7
           (POST_workspaces ''a1b2c3d4'' demo_request) (empty_db, ()))))"
proof -
  have v: "api_ShouldBindJSON demo_request = None" "ShouldBindJSON demo_request = None"
    by (simp_all add: ShouldBindJSON_def api_ShouldBindJSON_def demo_request_def)
  have f: "\<not> has_workspace empty_db ''a1b2c3d4''"
    by (simp add: has_workspace_def empty_db_def)
  have n: "names_derived ''hld-'' ''workspace-'' demo_db" "names_derived ''ws-'' ''ws-'' empty_db"
    by (simp_all add: names_derived_def demo_db_def demo_workspace_def empty_db_def)
  from v f n
    stored_release_name_and_namespace [of demo_request empty_db "''a1b2c3d4''" "MockOrchestrator None" 7 "()"
      "Some (MockOrchestrator None)" "POST_workspaces ''a1b2c3d4'' demo_request"]
    stored_release_name_and_namespace [of demo_request demo_db "''a1b2c3d4''" "MockOrchestrator None" 7 "()"
      "Some (MockOrchestrator None)" "POST_stop ''a1b2c3d4''"]
  show ?thesis by simp
qed

end
